theory Spec2Isabelle
  imports Complex_Main
begin

section \<open>Data model\<close>

text \<open>
  The embedding follows \<^verbatim>\<open>satellite.py\<close> and \<^verbatim>\<open>orbital_mechanics.py\<close>.
  The arithmetic of Python floats is modelled by exact real arithmetic: rounding is
  outside the model, so every statement below is a statement about the arithmetic the
  code writes down, carried out exactly.  The arguments of the constructor are the one
  place where NaN and the infinities are values of the model.  Exceptions are values of the type \<open>error\<close>;
  a function that can raise returns \<open>error + 'a\<close> with \<open>Inl\<close> for the exception.

  A quotient of Python floats raises \<^verbatim>\<open>ZeroDivisionError\<close> on a zero divisor and is
  modelled with that branch.  A quotient of numpy floats and \<^verbatim>\<open>np.sqrt\<close> never raise:
  on a zero divisor or a negative argument they give an infinity or NaN, where HOL gives
  \<open>x / 0 = 0\<close> and \<open>sqrt (- x) = - sqrt x\<close>.  The model therefore agrees with the
  code where these divisors are not zero and these arguments are not negative, which is
  the case for every element set the constructor returns (eccentricity in \<open>[0, 1)\<close>,
  positive semi-major axis); the statements below are about such element sets, or show
  that the divisor is not zero.
\<close>

datatype error =
    ValueError string
  | TypeError string
  | ZeroDivisionError
  | OverflowError

datatype datetime = Datetime int int int int int int

record satellite =
  name :: string
  satellite_id :: string
  inclination :: real
  eccentricity :: real
  semi_major_axis :: real
  mean_anomaly :: real
  raan :: real
  argument_of_perigee :: real
  epoch :: datetime

text \<open>
  A Python float as the constructor's checks see it: a finite value, NaN, or an
  infinity.  Every comparison with NaN is false.
\<close>

datatype pyfloat = Finite real | NaN | PosInf | NegInf

fun float_lt :: "pyfloat \<Rightarrow> real \<Rightarrow> bool" where
  "float_lt (Finite x) c = (x < c)"
| "float_lt NaN c = False"
| "float_lt PosInf c = False"
| "float_lt NegInf c = True"

fun float_le :: "pyfloat \<Rightarrow> real \<Rightarrow> bool" where
  "float_le (Finite x) c = (x \<le> c)"
| "float_le NaN c = False"
| "float_le PosInf c = False"
| "float_le NegInf c = True"

fun float_gt :: "pyfloat \<Rightarrow> real \<Rightarrow> bool" where
  "float_gt (Finite x) c = (x > c)"
| "float_gt NaN c = False"
| "float_gt PosInf c = True"
| "float_gt NegInf c = False"

fun float_ge :: "pyfloat \<Rightarrow> real \<Rightarrow> bool" where
  "float_ge (Finite x) c = (x \<ge> c)"
| "float_ge NaN c = False"
| "float_ge PosInf c = True"
| "float_ge NegInf c = False"

text \<open>
  The dynamically typed values that reach the constructor and the comparison
  operators: the built-in types the checks of the source distinguish, and instances of
  \<^verbatim>\<open>Satellite\<close> itself.
\<close>

datatype pyval =
    PyNone
  | PyBool bool
  | PyInt int
  | PyFloat pyfloat
  | PyStr string
  | PyDatetime datetime
  | PySatellite satellite

text \<open>\<^verbatim>\<open>isinstance(v, Satellite)\<close>.\<close>

fun is_Satellite :: "pyval \<Rightarrow> bool" where
  "is_Satellite (PySatellite s) = True"
| "is_Satellite v = False"

text \<open>\<^verbatim>\<open>type(v)\<close> as an f-string prints it.\<close>

fun type_repr :: "pyval \<Rightarrow> string" where
  "type_repr PyNone = ''<class 'NoneType'>''"
| "type_repr (PyBool b) = ''<class 'bool'>''"
| "type_repr (PyInt i) = ''<class 'int'>''"
| "type_repr (PyFloat x) = ''<class 'float'>''"
| "type_repr (PyStr s) = ''<class 'str'>''"
| "type_repr (PyDatetime d) = ''<class 'datetime.datetime'>''"
| "type_repr (PySatellite s) = ''<class 'satellite.Satellite'>''"

text \<open>
  \<^verbatim>\<open>isinstance(v, str) and v\<close>: the string when \<open>v\<close> is a non-empty string.
\<close>

fun nonempty_str :: "pyval \<Rightarrow> string option" where
  "nonempty_str (PyStr s) = (if s = [] then None else Some s)"
| "nonempty_str v = None"

text \<open>
  \<^verbatim>\<open>isinstance(v, (int, float))\<close> with the number that the comparisons of the checks
  use; \<^verbatim>\<open>bool\<close> is a subclass of \<^verbatim>\<open>int\<close> in Python, so booleans pass the check.
  Python compares an int with a float constant exactly, whatever its size.
\<close>

fun number_of :: "pyval \<Rightarrow> pyfloat option" where
  "number_of (PyBool b) = Some (Finite (of_bool b))"
| "number_of (PyInt i) = Some (Finite (of_int i))"
| "number_of (PyFloat x) = Some x"
| "number_of v = None"

text \<open>
  \<^verbatim>\<open>float(v)\<close> at the assignments raises \<^verbatim>\<open>OverflowError\<close> for an int that rounds
  to \<open>2\<^sup>1\<^sup>0\<^sup>2\<^sup>4\<close> or beyond, that is from \<open>2\<^sup>1\<^sup>0\<^sup>2\<^sup>4 - 2\<^sup>9\<^sup>7\<^sup>0\<close> on in absolute value; below
  that it gives the nearest float, which the model takes to be the int itself.
\<close>

fun float_overflows :: "pyval \<Rightarrow> bool" where
  "float_overflows (PyInt i) = (\<bar>i\<bar> \<ge> 2 ^ 1024 - 2 ^ 970)"
| "float_overflows v = False"

text \<open>\<^verbatim>\<open>isinstance(v, datetime)\<close>.\<close>

fun datetime_of :: "pyval \<Rightarrow> datetime option" where
  "datetime_of (PyDatetime d) = Some d"
| "datetime_of v = None"

text \<open>
  A numeric field check \<^verbatim>\<open>not isinstance(v, (int, float)) or bad(v)\<close>: the number
  when the check passes.
\<close>

definition checked_number :: "(pyfloat \<Rightarrow> bool) \<Rightarrow> pyval \<Rightarrow> pyfloat option" where
  "checked_number bad v =
     (case number_of v of
        None \<Rightarrow> None
      | Some x \<Rightarrow> if bad x then None else Some x)"

section \<open>The constructor\<close>

text \<open>
  What a call of the constructor does: it raises, it returns an element set all of whose
  numeric attributes are finite, or it returns an object one of whose numeric attributes
  is NaN or an infinity.  Such an object is outside the record \<open>satellite\<close>, whose
  attributes are real numbers, and none of the functions below is modelled on it.
\<close>

datatype construction = Raises error | Constructs satellite | Constructs_non_finite

text \<open>
  \<^verbatim>\<open>Satellite.__init__\<close>: the checks in the order of the source, each with its
  message, then the assignments with their conversions \<^verbatim>\<open>float(...)\<close>.  The checks are
  comparisons, so NaN passes each of them.
\<close>

definition Satellite_init ::
  "pyval \<Rightarrow> pyval \<Rightarrow> pyval \<Rightarrow> pyval \<Rightarrow> pyval \<Rightarrow> pyval \<Rightarrow> pyval \<Rightarrow> pyval \<Rightarrow> pyval
     \<Rightarrow> construction" where
  "Satellite_init name_v id_v inclination_v eccentricity_v semi_major_axis_v
       mean_anomaly_v epoch_v raan_v argument_of_perigee_v =
     (case nonempty_str name_v of
        None \<Rightarrow> Raises (ValueError ''Satellite name must be a non-empty string'')
      | Some n \<Rightarrow>
     (case nonempty_str id_v of
        None \<Rightarrow> Raises (ValueError ''Satellite ID must be a non-empty string'')
      | Some sid \<Rightarrow>
     (case checked_number (\<lambda>x. float_lt x 0 \<or> float_gt x 180) inclination_v of
        None \<Rightarrow> Raises (ValueError ''Inclination must be a number between 0 and 180 degrees'')
      | Some inc \<Rightarrow>
     (case checked_number (\<lambda>x. float_lt x 0 \<or> float_ge x 1) eccentricity_v of
        None \<Rightarrow> Raises (ValueError ''Eccentricity must be a number between 0 and 1'')
      | Some ecc \<Rightarrow>
     (case checked_number (\<lambda>x. float_le x 0) semi_major_axis_v of
        None \<Rightarrow> Raises (ValueError ''Semi-major axis must be a positive number'')
      | Some sma \<Rightarrow>
     (case checked_number (\<lambda>x. False) mean_anomaly_v of
        None \<Rightarrow> Raises (ValueError ''Mean anomaly must be a number'')
      | Some ma \<Rightarrow>
     (case datetime_of epoch_v of
        None \<Rightarrow> Raises (ValueError ''Epoch must be a datetime object'')
      | Some ep \<Rightarrow>
     (case checked_number (\<lambda>x. float_lt x 0 \<or> float_ge x 360) raan_v of
        None \<Rightarrow> Raises (ValueError ''RAAN must be a number between 0 and 360 degrees'')
      | Some ra \<Rightarrow>
     (case checked_number (\<lambda>x. float_lt x 0 \<or> float_ge x 360) argument_of_perigee_v of
        None \<Rightarrow>
          Raises (ValueError ''Argument of perigee must be a number between 0 and 360 degrees'')
      | Some ap \<Rightarrow>
          if float_overflows inclination_v \<or> float_overflows eccentricity_v
             \<or> float_overflows semi_major_axis_v \<or> float_overflows mean_anomaly_v
             \<or> float_overflows raan_v \<or> float_overflows argument_of_perigee_v
          then Raises OverflowError
          else
            (case (inc, ecc, sma, ma, ra, ap) of
               (Finite inc', Finite ecc', Finite sma', Finite ma', Finite ra', Finite ap') \<Rightarrow>
                 Constructs \<lparr> name = n, satellite_id = sid, inclination = inc',
                   eccentricity = ecc', semi_major_axis = sma', mean_anomaly = ma',
                   raan = ra', argument_of_perigee = ap', epoch = ep \<rparr>
             | _ \<Rightarrow> Constructs_non_finite))))))))))"

section \<open>Altitudes and comparison operators\<close>

definition get_altitude :: "satellite \<Rightarrow> real" where
  "get_altitude self = (let earth_radius = 6371 in semi_major_axis self - earth_radius)"

definition get_perigee_altitude :: "satellite \<Rightarrow> real" where
  "get_perigee_altitude self =
     (let earth_radius = 6371;
          perigee_radius = semi_major_axis self * (1 - eccentricity self)
      in perigee_radius - earth_radius)"

definition get_apogee_altitude :: "satellite \<Rightarrow> real" where
  "get_apogee_altitude self =
     (let earth_radius = 6371;
          apogee_radius = semi_major_axis self * (1 + eccentricity self)
      in apogee_radius - earth_radius)"

text \<open>
  \<^verbatim>\<open>Satellite.__eq__\<close> has no \<^verbatim>\<open>raise\<close>: it returns a boolean for every operand.
\<close>

fun Satellite_eq :: "satellite \<Rightarrow> pyval \<Rightarrow> bool" where
  "Satellite_eq self (PySatellite other) = (satellite_id self = satellite_id other)"
| "Satellite_eq self other = False"

text \<open>
  \<^verbatim>\<open>__lt__\<close>, \<^verbatim>\<open>__le__\<close>, \<^verbatim>\<open>__gt__\<close>, \<^verbatim>\<open>__ge__\<close>: a \<^verbatim>\<open>TypeError\<close> for an
  operand that is not a \<^verbatim>\<open>Satellite\<close>, the comparison of the altitudes otherwise.
\<close>

definition compare_error :: "pyval \<Rightarrow> error" where
  "compare_error other = TypeError (''Cannot compare Satellite with '' @ type_repr other)"

fun Satellite_lt :: "satellite \<Rightarrow> pyval \<Rightarrow> error + bool" where
  "Satellite_lt self (PySatellite other) = Inr (get_altitude self < get_altitude other)"
| "Satellite_lt self other = Inl (compare_error other)"

fun Satellite_le :: "satellite \<Rightarrow> pyval \<Rightarrow> error + bool" where
  "Satellite_le self (PySatellite other) = Inr (get_altitude self \<le> get_altitude other)"
| "Satellite_le self other = Inl (compare_error other)"

fun Satellite_gt :: "satellite \<Rightarrow> pyval \<Rightarrow> error + bool" where
  "Satellite_gt self (PySatellite other) = Inr (get_altitude self > get_altitude other)"
| "Satellite_gt self other = Inl (compare_error other)"

fun Satellite_ge :: "satellite \<Rightarrow> pyval \<Rightarrow> error + bool" where
  "Satellite_ge self (PySatellite other) = Inr (get_altitude self \<ge> get_altitude other)"
| "Satellite_ge self other = Inl (compare_error other)"

section \<open>Arithmetic of the Python and numpy operators\<close>

text \<open>
  \<^verbatim>\<open>x % y\<close> on floats with a positive divisor: the result lies in \<open>[0, y)\<close>.
\<close>

definition py_mod :: "real \<Rightarrow> real \<Rightarrow> real" where
  "py_mod x y = x - y * of_int \<lfloor>x / y\<rfloor>"


text \<open>\<^verbatim>\<open>np.radians\<close>.\<close>

definition radians :: "real \<Rightarrow> real" where
  "radians d = d * pi / 180"

text \<open>\<^verbatim>\<open>np.arctan2(y, x)\<close>, the angle of the point \<open>(x, y)\<close> in \<open>(-\<pi>, \<pi>]\<close>.\<close>

definition arctan2 :: "real \<Rightarrow> real \<Rightarrow> real" where
  "arctan2 y x =
     (if 0 < x then arctan (y / x)
      else if x < 0 \<and> 0 \<le> y then arctan (y / x) + pi
      else if x < 0 then arctan (y / x) - pi
      else if 0 < y then pi / 2
      else if y < 0 then - (pi / 2)
      else 0)"

section \<open>Kepler's equation\<close>

text \<open>
  The body of the \<^verbatim>\<open>for\<close> loop of \<^verbatim>\<open>solve_kepler_equation\<close>, run at most \<open>n\<close>
  more times from the iterate \<open>E\<close>: it returns the new iterate as soon as it is
  closer than \<open>tolerance\<close> to the previous one, and the last iterate when the
  iterations are used up.  The quotient \<^verbatim>\<open>f / f_prime\<close> is a numpy division, which
  does not raise.
\<close>

fun kepler_loop :: "real \<Rightarrow> real \<Rightarrow> real \<Rightarrow> nat \<Rightarrow> real \<Rightarrow> real" where
  "kepler_loop e M tolerance 0 E = E"
| "kepler_loop e M tolerance (Suc n) E =
     (let f = E - e * sin E - M;
          f_prime = 1 - e * cos E;
          E_new = E - f / f_prime
      in if \<bar>E_new - E\<bar> < tolerance then E_new
         else kepler_loop e M tolerance n E_new)"

text \<open>
  \<^verbatim>\<open>Satellite.solve_kepler_equation\<close>.  The initial guess is taken from the mean
  anomaly as passed in; the mean anomaly is reduced modulo \<open>2\<pi>\<close> afterwards.
  \<^verbatim>\<open>range(max_iterations)\<close> is empty for a cap that is not positive.
\<close>

definition solve_kepler_equation :: "satellite \<Rightarrow> real \<Rightarrow> real \<Rightarrow> int \<Rightarrow> real" where
  "solve_kepler_equation self mean_anomaly_rad tolerance max_iterations =
     (let E = (if eccentricity self < 8 / 10 then mean_anomaly_rad else pi);
          mean_anomaly_rad' = py_mod mean_anomaly_rad (2 * pi)
      in kepler_loop (eccentricity self) mean_anomaly_rad' tolerance (nat max_iterations) E)"

text \<open>The default arguments \<^verbatim>\<open>tolerance=1e-10, max_iterations=100\<close>.\<close>

definition default_tolerance :: real where
  "default_tolerance = 1 / 10 ^ 10"

definition default_max_iterations :: int where
  "default_max_iterations = 100"

section \<open>Position\<close>

type_synonym vec3 = "real \<times> real \<times> real"

text \<open>
  \<^verbatim>\<open>Satellite.calculate_position\<close>.  The two quotients of Python floats
  (\<^verbatim>\<open>mu / (self.semi_major_axis ** 3)\<close> and
  \<^verbatim>\<open>(1 + self.eccentricity) / (1 - self.eccentricity)\<close>) raise
  \<^verbatim>\<open>ZeroDivisionError\<close> on a zero divisor; the quotient that gives the radius is a
  numpy division.
\<close>

definition calculate_position :: "satellite \<Rightarrow> real \<Rightarrow> error + vec3" where
  "calculate_position self time_delta_seconds =
     (if time_delta_seconds < 0 then Inl (ValueError ''Time delta cannot be negative'')
      else
        let mu = 3986004418 / 10000 in
        if semi_major_axis self ^ 3 = 0 then Inl ZeroDivisionError
        else
          let mean_motion = sqrt (mu / semi_major_axis self ^ 3);
              mean_anomaly_rad = radians (mean_anomaly self);
              mean_anomaly_at_time = mean_anomaly_rad + mean_motion * time_delta_seconds;
              E = solve_kepler_equation self mean_anomaly_at_time
                    default_tolerance default_max_iterations;
              nu_result =
                (if eccentricity self < 1 / 10 ^ 10 then Inr E
                 else if 1 - eccentricity self = 0 then Inl ZeroDivisionError
                 else
                   let sqrt_term = sqrt ((1 + eccentricity self) / (1 - eccentricity self))
                   in Inr (2 * arctan2 (sqrt_term * sin (E / 2)) (cos (E / 2))))
          in case nu_result of
               Inl err \<Rightarrow> Inl err
             | Inr nu \<Rightarrow>
                 let a = semi_major_axis self;
                     e = eccentricity self;
                     r = a * (1 - e\<^sup>2) / (1 + e * cos nu);
                     x_pqw = r * cos nu;
                     y_pqw = r * sin nu;
                     z_pqw = 0;
                     omega = radians (argument_of_perigee self);
                     i = radians (inclination self);
                     Omega = radians (raan self);
                     cos_omega = cos omega;
                     sin_omega = sin omega;
                     cos_i = cos i;
                     sin_i = sin i;
                     cos_Omega = cos Omega;
                     sin_Omega = sin Omega;
                     x1 = x_pqw * cos_omega - y_pqw * sin_omega;
                     y1 = x_pqw * sin_omega + y_pqw * cos_omega;
                     z1 = z_pqw;
                     x2 = x1;
                     y2 = y1 * cos_i - z1 * sin_i;
                     z2 = y1 * sin_i + z1 * cos_i;
                     x = x2 * cos_Omega - y2 * sin_Omega;
                     y = x2 * sin_Omega + y2 * cos_Omega;
                     z = z2
                 in Inr (x, y, z))"

text \<open>
  A method call as seen from the caller: the value or exception, and the object after
  the call.  The body of \<^verbatim>\<open>calculate_position\<close> assigns to no attribute of
  \<^verbatim>\<open>self\<close>, so the object after the call is the object before it.
\<close>

definition call_calculate_position :: "satellite \<Rightarrow> real \<Rightarrow> (error + vec3) \<times> satellite" where
  "call_calculate_position self time_delta_seconds =
     (calculate_position self time_delta_seconds, self)"

section \<open>Functions of the module orbital\_mechanics\<close>

text \<open>
  The two samplers are modelled for Python ints as \<^verbatim>\<open>time_hours\<close> and
  \<^verbatim>\<open>resolution_minutes\<close>, as their defaults 24 and 10 and the call in
  \<^verbatim>\<open>test_predict_future_positions\<close> are, and \<^verbatim>\<open>predict_future_positions\<close> with
  \<^verbatim>\<open>smooth_factor\<close> left at its default 1.  Every number the two functions then
  compute is an integer, apart from the quotient
  \<^verbatim>\<open>total_minutes / effective_resolution\<close>.  As long as
  \<open>time_hours \<sqdot> 3600 + resolution_minutes \<sqdot> 60 < 2\<^sup>5\<^sup>3\<close> the floats of the code hold
  these integers exactly, and the quotient, rounded to the nearest float, cannot reach
  the integer above it; so exact arithmetic is what the code computes.  With float
  arguments the code rounds, and the model does not cover them.
\<close>










text \<open>\<^verbatim>\<open>calculate_orbital_period\<close>; the divisor \<^verbatim>\<open>mu\<close> is a non-zero constant.\<close>

definition calculate_orbital_period :: "pyval \<Rightarrow> error + real" where
  "calculate_orbital_period satellite =
     (case satellite of
        PySatellite sat \<Rightarrow>
          let mu = 3986004418 / 10000;
              a = semi_major_axis sat;
              period = 2 * pi * sqrt (a ^ 3 / mu)
          in Inr period
      | _ \<Rightarrow> Inl (TypeError ''satellite must be a Satellite instance''))"

text \<open>
  \<^verbatim>\<open>calculate_velocity\<close>; \<^verbatim>\<open>2.0 / r\<close> divides by a numpy float and does not raise,
  \<^verbatim>\<open>1.0 / a\<close> divides Python floats.
\<close>

definition calculate_velocity :: "pyval \<Rightarrow> real \<Rightarrow> error + real" where
  "calculate_velocity satellite time_delta_seconds =
     (case satellite of
        PySatellite sat \<Rightarrow>
          (case calculate_position sat time_delta_seconds of
             Inl err \<Rightarrow> Inl err
           | Inr (px, py, pz) \<Rightarrow>
               let r = sqrt (px\<^sup>2 + py\<^sup>2 + pz\<^sup>2);
                   mu = 3986004418 / 10000;
                   a = semi_major_axis sat
               in if a = 0 then Inl ZeroDivisionError
                  else
                    let velocity = sqrt (mu * (2 / r - 1 / a))
                    in Inr velocity)
      | _ \<Rightarrow> Inl (TypeError ''satellite must be a Satellite instance''))"

text \<open>
  \<^verbatim>\<open>calculate_velocity\<close> as seen from the caller, with the object after the call; it
  assigns to no attribute of the satellite either.
\<close>

definition call_calculate_velocity :: "satellite \<Rightarrow> real \<Rightarrow> (error + real) \<times> satellite" where
  "call_calculate_velocity sat time_delta_seconds =
     (calculate_velocity (PySatellite sat) time_delta_seconds, sat)"

section \<open>Auxiliary notions used in the statements\<close>

text \<open>
  One Newton step for Kepler's equation, as the loop body computes it, the sequence
  of iterates of \<^verbatim>\<open>solve_kepler_equation\<close> (the initial guess followed by the
  successive values of \<^verbatim>\<open>E_new\<close>), and the function \<^verbatim>\<open>f\<close> of the loop body.
\<close>

definition newton_step :: "real \<Rightarrow> real \<Rightarrow> real \<Rightarrow> real" where
  "newton_step e M E = E - (E - e * sin E - M) / (1 - e * cos E)"

definition kepler_iterate :: "satellite \<Rightarrow> real \<Rightarrow> nat \<Rightarrow> real" where
  "kepler_iterate self mean_anomaly_rad k =
     (newton_step (eccentricity self) (py_mod mean_anomaly_rad (2 * pi)) ^^ k)
       (if eccentricity self < 8 / 10 then mean_anomaly_rad else pi)"

definition kepler_f :: "real \<Rightarrow> real \<Rightarrow> real \<Rightarrow> real" where
  "kepler_f e m E = E - e * sin E - m"

text \<open>
  The Euclidean norm of a position, as \<^verbatim>\<open>calculate_velocity\<close> computes the radius.
\<close>

definition norm3 :: "vec3 \<Rightarrow> real" where
  "norm3 p = (case p of (x, y, z) \<Rightarrow> sqrt (x\<^sup>2 + y\<^sup>2 + z\<^sup>2))"

text \<open>
  Element sets used as concrete inputs.  \<open>sample_satellite\<close>,
  \<open>different_sat\<close> and \<open>higher_sat\<close> are the objects of the tests in
  \<^verbatim>\<open>test_satellite.py\<close>; \<open>circular_sat\<close> has eccentricity 0, \<open>half_sat\<close>
  eccentricity 1/2 and \<open>eccentric_sat\<close> eccentricity 0.9.
\<close>

definition sample_satellite :: satellite where
  "sample_satellite = \<lparr> name = ''TestSat'', satellite_id = ''12345'', inclination = 516 / 10,
     eccentricity = 1 / 1000, semi_major_axis = 6778, mean_anomaly = 0, raan = 0,
     argument_of_perigee = 0, epoch = Datetime 2024 1 1 0 0 0 \<rparr>"

definition different_sat :: satellite where
  "different_sat = \<lparr> name = ''TestSat'', satellite_id = ''99999'', inclination = 516 / 10,
     eccentricity = 1 / 1000, semi_major_axis = 6778, mean_anomaly = 0, raan = 0,
     argument_of_perigee = 0, epoch = Datetime 2024 1 1 0 0 0 \<rparr>"

definition higher_sat :: satellite where
  "higher_sat = \<lparr> name = ''HigherSat'', satellite_id = ''99999'', inclination = 516 / 10,
     eccentricity = 1 / 1000, semi_major_axis = 8000, mean_anomaly = 0, raan = 0,
     argument_of_perigee = 0, epoch = Datetime 2024 1 1 0 0 0 \<rparr>"

definition circular_sat :: satellite where
  "circular_sat = \<lparr> name = ''Circular'', satellite_id = ''C-0'', inclination = 0,
     eccentricity = 0, semi_major_axis = 7000, mean_anomaly = 0, raan = 0,
     argument_of_perigee = 0, epoch = Datetime 2024 1 1 0 0 0 \<rparr>"

definition half_sat :: satellite where
  "half_sat = \<lparr> name = ''Half'', satellite_id = ''H-1'', inclination = 0,
     eccentricity = 1 / 2, semi_major_axis = 7000, mean_anomaly = 0, raan = 0,
     argument_of_perigee = 0, epoch = Datetime 2024 1 1 0 0 0 \<rparr>"

definition eccentric_sat :: satellite where
  "eccentric_sat = \<lparr> name = ''Eccentric'', satellite_id = ''E-9'', inclination = 0,
     eccentricity = 9 / 10, semi_major_axis = 26600, mean_anomaly = 0, raan = 0,
     argument_of_perigee = 0, epoch = Datetime 2024 1 1 0 0 0 \<rparr>"

section \<open>Concrete element sets\<close>

lemma sample_satellite_constructed:
  "Satellite_init (PyStr ''TestSat'') (PyStr ''12345'') (PyFloat (Finite (516 / 10)))
     (PyFloat (Finite (1 / 1000))) (PyFloat (Finite 6778)) (PyFloat (Finite 0))
     (PyDatetime (Datetime 2024 1 1 0 0 0)) (PyFloat (Finite 0)) (PyFloat (Finite 0))
   = Constructs sample_satellite"
  by (simp add: Satellite_init_def checked_number_def sample_satellite_def)

lemma circular_sat_constructed:
  "Satellite_init (PyStr ''Circular'') (PyStr ''C-0'') (PyInt 0) (PyInt 0)
     (PyInt 7000) (PyInt 0) (PyDatetime (Datetime 2024 1 1 0 0 0)) (PyFloat (Finite 0))
     (PyFloat (Finite 0))
   = Constructs circular_sat"
  by (simp add: Satellite_init_def checked_number_def circular_sat_def)

section \<open>The constructor and its invariant\<close>

lemma checked_number_Finite:
  "checked_number bad v = Some x \<Longrightarrow> \<not> bad x"
  by (auto simp: checked_number_def split: option.splits if_splits)

lemma init_Constructs:
  assumes "Satellite_init nv iv incv ev av mv epv rav apv = Constructs s"
  shows "\<exists>n sid ep.
        nonempty_str nv = Some n \<and> nonempty_str iv = Some sid \<and> datetime_of epv = Some ep
      \<and> checked_number (\<lambda>x. float_lt x 0 \<or> float_gt x 180) incv = Some (Finite (inclination s))
      \<and> checked_number (\<lambda>x. float_lt x 0 \<or> float_ge x 1) ev = Some (Finite (eccentricity s))
      \<and> checked_number (\<lambda>x. float_le x 0) av = Some (Finite (semi_major_axis s))
      \<and> checked_number (\<lambda>x. False) mv = Some (Finite (mean_anomaly s))
      \<and> checked_number (\<lambda>x. float_lt x 0 \<or> float_ge x 360) rav = Some (Finite (raan s))
      \<and> checked_number (\<lambda>x. float_lt x 0 \<or> float_ge x 360) apv
            = Some (Finite (argument_of_perigee s))
      \<and> name s = n \<and> satellite_id s = sid \<and> epoch s = ep"
  using assms unfolding Satellite_init_def
  by (auto split: option.splits if_splits pyfloat.splits)

text \<open>
  The invariant of the element sets that the constructor returns: each numeric
  attribute is in the range its check asks for.
\<close>

lemma init_invariant:
  assumes "Satellite_init nv iv incv ev av mv epv rav apv = Constructs s"
  shows "0 \<le> eccentricity s" "eccentricity s < 1" "0 < semi_major_axis s"
    "0 \<le> inclination s" "inclination s \<le> 180" "0 \<le> raan s" "raan s < 360"
    "0 \<le> argument_of_perigee s" "argument_of_perigee s < 360"
proof -
  from init_Constructs[OF assms] have
    i: "checked_number (\<lambda>x. float_lt x 0 \<or> float_gt x 180) incv = Some (Finite (inclination s))"
    and e: "checked_number (\<lambda>x. float_lt x 0 \<or> float_ge x 1) ev = Some (Finite (eccentricity s))"
    and a: "checked_number (\<lambda>x. float_le x 0) av = Some (Finite (semi_major_axis s))"
    and r: "checked_number (\<lambda>x. float_lt x 0 \<or> float_ge x 360) rav = Some (Finite (raan s))"
    and p: "checked_number (\<lambda>x. float_lt x 0 \<or> float_ge x 360) apv
            = Some (Finite (argument_of_perigee s))"
    by blast+
  show "0 \<le> eccentricity s" "eccentricity s < 1"
    using checked_number_Finite[OF e] by simp_all
  show "0 < semi_major_axis s"
    using checked_number_Finite[OF a] by simp
  show "0 \<le> inclination s" "inclination s \<le> 180"
    using checked_number_Finite[OF i] by simp_all
  show "0 \<le> raan s" "raan s < 360"
    using checked_number_Finite[OF r] by simp_all
  show "0 \<le> argument_of_perigee s" "argument_of_perigee s < 360"
    using checked_number_Finite[OF p] by simp_all
qed

text \<open>
  C9 asks for a \<^verbatim>\<open>ValueError\<close> whenever a field is outside its domain.  The range
  checks of the constructor are comparisons, and every comparison with NaN is false:
  with NaN as the inclination, and the other arguments those of the tests, no check
  fails and the constructor returns an object whose inclination is NaN.  NaN is not in
  \<open>[0, 180]\<close>, and the message of the check it passes asks for
  \<^verbatim>\<open>a number between 0 and 180 degrees\<close>.
\<close>

theorem constructor_accepts_nan:
  "Satellite_init (PyStr ''TestSat'') (PyStr ''12345'') (PyFloat NaN)
     (PyFloat (Finite (1 / 1000))) (PyFloat (Finite 6778)) (PyFloat (Finite 0))
     (PyDatetime (Datetime 2024 1 1 0 0 0)) (PyFloat (Finite 0)) (PyFloat (Finite 0))
   = Constructs_non_finite"
  by (simp add: Satellite_init_def checked_number_def)

text \<open>
  The conversions \<^verbatim>\<open>float(...)\<close> after the checks can raise as well: a semi-major
  axis given as the int \<open>10\<^sup>4\<^sup>0\<^sup>0\<close> passes its check, being positive, and the
  constructor ends with \<^verbatim>\<open>OverflowError\<close>, which is not a \<^verbatim>\<open>ValueError\<close>.
\<close>

lemma constructor_overflow:
  "Satellite_init (PyStr ''TestSat'') (PyStr ''12345'') (PyFloat (Finite (516 / 10)))
     (PyFloat (Finite (1 / 1000))) (PyInt (10 ^ 400)) (PyFloat (Finite 0))
     (PyDatetime (Datetime 2024 1 1 0 0 0)) (PyFloat (Finite 0)) (PyFloat (Finite 0))
   = Raises OverflowError"
proof -
  have "(2::int) ^ 1024 - 2 ^ 970 \<le> 10 ^ 400" by simp
  then have "float_overflows (PyInt (10 ^ 400))" by simp
  then show ?thesis
    by (simp add: Satellite_init_def checked_number_def del: float_overflows.simps)
qed

section \<open>Equality and ordering\<close>

text \<open>
  C7. Two element sets are equal under \<^verbatim>\<open>==\<close> exactly when their satellite ids are
  the same string; no other field takes part, so sets that share the id and differ in
  every orbital parameter are equal, and sets with different ids are unequal whatever
  their parameters are.
\<close>

theorem equality_is_identity_of_id:
  "Satellite_eq s1 (PySatellite s2) \<longleftrightarrow> satellite_id s1 = satellite_id s2"
  by simp

text \<open>
  C10. For an element set \<open>s\<close> and a value \<open>v\<close> that is not an element set,
  \<^verbatim>\<open>s == v\<close> is \<^verbatim>\<open>False\<close> and raises nothing, while each of the four ordering
  operators raises \<^verbatim>\<open>TypeError\<close> on the same operands.
\<close>

theorem equality_with_foreign_type_is_false:
  assumes "\<not> is_Satellite v"
  shows "Satellite_eq s v = False
       \<and> Satellite_lt s v = Inl (compare_error v)
       \<and> Satellite_le s v = Inl (compare_error v)
       \<and> Satellite_gt s v = Inl (compare_error v)
       \<and> Satellite_ge s v = Inl (compare_error v)
       \<and> (\<exists>msg. compare_error v = TypeError msg)"
  using assms by (cases v) (simp_all add: compare_error_def)

text \<open>
  The operands of \<^verbatim>\<open>test_comparison_with_non_satellite\<close>: a string is not an element
  set.
\<close>

theorem equality_with_foreign_type_is_false_witness:
  "\<not> is_Satellite (PyStr ''not a satellite'')
   \<and> Satellite_eq circular_sat (PyStr ''not a satellite'') = False
   \<and> Satellite_lt circular_sat (PyStr ''not a satellite'')
        = Inl (TypeError ''Cannot compare Satellite with <class 'str'>'')"
proof -
  have h: "\<not> is_Satellite (PyStr ''not a satellite'')" by simp
  show ?thesis
    using h equality_with_foreign_type_is_false[OF h, of circular_sat]
    by (simp add: compare_error_def)
qed

text \<open>
  C8, as stated, asks for a total order on element sets.  The two element sets of
  \<^verbatim>\<open>test_equality_operator\<close> with ids 12345 and 99999 have the same semi-major axis:
  each is \<^verbatim>\<open><=\<close> the other, yet they are different element sets and \<^verbatim>\<open>==\<close>
  is false on them.  Antisymmetry fails, so the relation is not a total order on
  element sets.
\<close>

theorem ordering_not_antisymmetric_counterexample:
  "Satellite_le sample_satellite (PySatellite different_sat) = Inr True
   \<and> Satellite_le different_sat (PySatellite sample_satellite) = Inr True
   \<and> sample_satellite \<noteq> different_sat
   \<and> \<not> Satellite_eq sample_satellite (PySatellite different_sat)"
  by (simp add: get_altitude_def sample_satellite_def different_sat_def)

text \<open>
  C8, amended.  The four ordering operators on two element sets compare exactly the mean
  altitudes, semi-major axis minus 6371 km.  \<^verbatim>\<open><=\<close> is reflexive, transitive and
  total on element sets, \<^verbatim>\<open><\<close> is its strict part, and two element sets that are
  \<^verbatim>\<open><=\<close> each other have the same mean altitude (they need not be the same element
  set): a total preorder, which is a total order on the altitudes.  An operand that is
  not an element set makes each operator raise \<^verbatim>\<open>TypeError\<close>.
\<close>

theorem ordering_is_total_preorder_on_altitude:
  "get_altitude a = semi_major_axis a - 6371
   \<and> Satellite_lt a (PySatellite b) = Inr (get_altitude a < get_altitude b)
   \<and> Satellite_le a (PySatellite b) = Inr (get_altitude a \<le> get_altitude b)
   \<and> Satellite_gt a (PySatellite b) = Inr (get_altitude a > get_altitude b)
   \<and> Satellite_ge a (PySatellite b) = Inr (get_altitude a \<ge> get_altitude b)
   \<and> Satellite_le a (PySatellite a) = Inr True
   \<and> (Satellite_le a (PySatellite b) = Inr True \<or> Satellite_le b (PySatellite a) = Inr True)
   \<and> (Satellite_le a (PySatellite b) = Inr True \<and> Satellite_le b (PySatellite c) = Inr True
        \<longrightarrow> Satellite_le a (PySatellite c) = Inr True)
   \<and> (Satellite_le a (PySatellite b) = Inr True \<and> Satellite_le b (PySatellite a) = Inr True
        \<longrightarrow> get_altitude a = get_altitude b)
   \<and> (Satellite_lt a (PySatellite b) = Inr True
        \<longleftrightarrow> Satellite_le a (PySatellite b) = Inr True \<and> Satellite_le b (PySatellite a) \<noteq> Inr True)
   \<and> (\<not> is_Satellite v
        \<longrightarrow> Satellite_lt a v = Inl (compare_error v) \<and> Satellite_le a v = Inl (compare_error v)
          \<and> Satellite_gt a v = Inl (compare_error v) \<and> Satellite_ge a v = Inl (compare_error v)
          \<and> (\<exists>msg. compare_error v = TypeError msg))"
proof -
  have "\<not> is_Satellite v \<longrightarrow> Satellite_lt a v = Inl (compare_error v) \<and> Satellite_le a v = Inl (compare_error v)
          \<and> Satellite_gt a v = Inl (compare_error v) \<and> Satellite_ge a v = Inl (compare_error v)
          \<and> (\<exists>msg. compare_error v = TypeError msg)"
    by (cases v) (simp_all add: compare_error_def)
  moreover have "get_altitude a = semi_major_axis a - 6371"
    by (simp add: get_altitude_def)
  ultimately show ?thesis by auto
qed

text \<open>
  The element sets of \<^verbatim>\<open>test_less_than_operator\<close>, with altitudes 407 km and
  1629 km, and the operand 123 of \<^verbatim>\<open>test_comparison_with_non_satellite\<close>.
\<close>

theorem ordering_is_total_preorder_on_altitude_witness:
  "Satellite_le sample_satellite (PySatellite higher_sat) = Inr True
   \<and> Satellite_le higher_sat (PySatellite higher_sat) = Inr True
   \<and> Satellite_le sample_satellite (PySatellite higher_sat) = Inr True
   \<and> Satellite_le sample_satellite (PySatellite different_sat) = Inr True
   \<and> Satellite_le different_sat (PySatellite sample_satellite) = Inr True
   \<and> get_altitude sample_satellite = get_altitude different_sat
   \<and> Satellite_lt sample_satellite (PySatellite higher_sat) = Inr True
   \<and> \<not> is_Satellite (PyInt 123)
   \<and> Satellite_gt sample_satellite (PyInt 123) = Inl (compare_error (PyInt 123))"
proof -
  have alt: "get_altitude sample_satellite = 407" "get_altitude higher_sat = 1629"
    "get_altitude different_sat = 407"
    by (simp_all add: get_altitude_def sample_satellite_def higher_sat_def different_sat_def)
  have h: "\<not> is_Satellite (PyInt 123)" by simp
  show ?thesis
    using h alt
      ordering_is_total_preorder_on_altitude[of sample_satellite higher_sat higher_sat "PyInt 123"]
      ordering_is_total_preorder_on_altitude[of sample_satellite different_sat sample_satellite "PyInt 123"]
      ordering_is_total_preorder_on_altitude[of higher_sat higher_sat higher_sat "PyInt 123"]
      ordering_is_total_preorder_on_altitude[of different_sat sample_satellite sample_satellite "PyInt 123"]
    by simp
qed

section \<open>Errors of the position query\<close>

lemma calculate_position_negative:
  "t < 0 \<Longrightarrow> calculate_position s t = Inl (ValueError ''Time delta cannot be negative'')"
  by (simp add: calculate_position_def)

lemma calculate_position_not_ValueError:
  "\<not> t < 0 \<Longrightarrow> calculate_position s t \<noteq> Inl (ValueError msg)"
  by (simp add: calculate_position_def Let_def split: sum.splits)

lemma calculate_position_total:
  assumes "0 \<le> t" "0 < semi_major_axis s" "eccentricity s < 1"
  shows "\<exists>p. calculate_position s t = Inr p"
  using assms by (simp add: calculate_position_def Let_def)

lemma calculate_velocity_negative:
  "t < 0 \<Longrightarrow> calculate_velocity (PySatellite s) t = Inl (ValueError ''Time delta cannot be negative'')"
  by (simp add: calculate_velocity_def calculate_position_negative)

text \<open>
  C3. For an element set that the constructor accepted, \<^verbatim>\<open>calculate_position(t)\<close>
  raises \<^verbatim>\<open>ValueError\<close> exactly when \<open>t\<close> is negative (and returns a position
  otherwise); for negative \<open>t\<close>, \<^verbatim>\<open>calculate_velocity\<close> raises the same
  \<^verbatim>\<open>ValueError\<close>, which comes from its call of \<^verbatim>\<open>calculate_position\<close>; the
  element set after either call is the element set before it.
\<close>

theorem negative_time_rejected:
  assumes "Satellite_init nv iv incv ev av mv epv rav apv = Constructs s"
  shows "((\<exists>msg. fst (call_calculate_position s t) = Inl (ValueError msg)) \<longleftrightarrow> t < 0)
       \<and> (t < 0 \<longrightarrow> fst (call_calculate_position s t) = Inl (ValueError ''Time delta cannot be negative'')
                    \<and> fst (call_calculate_velocity s t) = Inl (ValueError ''Time delta cannot be negative''))
       \<and> (0 \<le> t \<longrightarrow> (\<exists>p. fst (call_calculate_position s t) = Inr p))
       \<and> snd (call_calculate_position s t) = s
       \<and> snd (call_calculate_velocity s t) = s"
proof -
  have a: "0 < semi_major_axis s" and e: "eccentricity s < 1"
    using init_invariant[OF assms] by simp_all
  have 1: "(\<exists>msg. calculate_position s t = Inl (ValueError msg)) \<longleftrightarrow> t < 0"
    using calculate_position_negative[of t s] calculate_position_not_ValueError[of t s]
    by blast
  have 2: "0 \<le> t \<longrightarrow> (\<exists>p. calculate_position s t = Inr p)"
    using calculate_position_total[OF _ a e] by blast
  show ?thesis
    using 1 2 calculate_velocity_negative[of t s] calculate_position_negative[of t s]
    by (simp add: call_calculate_position_def call_calculate_velocity_def)
qed

text \<open>
  The element set and the negative time of \<^verbatim>\<open>test_calculate_position_negative_time\<close>.
\<close>

theorem negative_time_rejected_witness:
  "Satellite_init (PyStr ''TestSat'') (PyStr ''12345'') (PyFloat (Finite (516 / 10)))
     (PyFloat (Finite (1 / 1000))) (PyFloat (Finite 6778)) (PyFloat (Finite 0))
     (PyDatetime (Datetime 2024 1 1 0 0 0)) (PyFloat (Finite 0)) (PyFloat (Finite 0))
     = Constructs sample_satellite
   \<and> (- 100 :: real) < 0
   \<and> fst (call_calculate_position sample_satellite (- 100))
        = Inl (ValueError ''Time delta cannot be negative'')
   \<and> fst (call_calculate_velocity sample_satellite (- 100))
        = Inl (ValueError ''Time delta cannot be negative'')
   \<and> (0::real) \<le> 0
   \<and> (\<exists>p. fst (call_calculate_position sample_satellite 0) = Inr p)
   \<and> snd (call_calculate_position sample_satellite (- 100)) = sample_satellite"
proof -
  have h: "(- 100 :: real) < 0" by simp
  show ?thesis
    using sample_satellite_constructed h
      negative_time_rejected[OF sample_satellite_constructed, of "- 100"]
      negative_time_rejected[OF sample_satellite_constructed, of 0]
    by simp
qed

section \<open>The Kepler solver\<close>

lemma kepler_loop_Suc:
  "kepler_loop e M tol (Suc n) E =
     (if \<bar>newton_step e M E - E\<bar> < tol then newton_step e M E
      else kepler_loop e M tol n (newton_step e M E))"
  by (simp add: newton_step_def Let_def)

lemma kepler_loop_converges_at:
  "k < n \<Longrightarrow> (\<forall>j<k. \<not> \<bar>(newton_step e M ^^ Suc j) E - (newton_step e M ^^ j) E\<bar> < tol)
     \<Longrightarrow> \<bar>(newton_step e M ^^ Suc k) E - (newton_step e M ^^ k) E\<bar> < tol
     \<Longrightarrow> kepler_loop e M tol n E = (newton_step e M ^^ Suc k) E"
proof (induction n arbitrary: k E)
  case 0
  then show ?case by simp
next
  case (Suc n)
  show ?case
  proof (cases k)
    case 0
    with Suc.prems show ?thesis by (simp add: kepler_loop_Suc del: kepler_loop.simps(2))
  next
    case (Suc k')
    have first: "\<not> \<bar>newton_step e M E - E\<bar> < tol"
      using Suc.prems(2) Suc by (auto dest: spec[of _ 0])
    have "kepler_loop e M tol n (newton_step e M E)
            = (newton_step e M ^^ Suc k') (newton_step e M E)"
    proof (rule Suc.IH)
      show "k' < n" using Suc.prems(1) Suc by simp
      show "\<forall>j<k'. \<not> \<bar>(newton_step e M ^^ Suc j) (newton_step e M E)
                      - (newton_step e M ^^ j) (newton_step e M E)\<bar> < tol"
      proof (intro allI impI)
        fix j assume "j < k'"
        then have "Suc j < k" using Suc by simp
        with Suc.prems(2) show "\<not> \<bar>(newton_step e M ^^ Suc j) (newton_step e M E)
                      - (newton_step e M ^^ j) (newton_step e M E)\<bar> < tol"
          by (metis funpow_simps_right(2) o_apply)
      qed
      show "\<bar>(newton_step e M ^^ Suc k') (newton_step e M E)
              - (newton_step e M ^^ k') (newton_step e M E)\<bar> < tol"
        using Suc.prems(3) Suc by (metis funpow_simps_right(2) o_apply)
    qed
    with first Suc show ?thesis
      by (simp only: kepler_loop_Suc if_False funpow_simps_right(2) o_apply)
  qed
qed

lemma kepler_loop_exhausted:
  "(\<forall>j<n. \<not> \<bar>(newton_step e M ^^ Suc j) E - (newton_step e M ^^ j) E\<bar> < tol)
     \<Longrightarrow> kepler_loop e M tol n E = (newton_step e M ^^ n) E"
proof (induction n arbitrary: E)
  case 0
  then show ?case by simp
next
  case (Suc n)
  have first: "\<not> \<bar>newton_step e M E - E\<bar> < tol"
    using Suc.prems by (auto dest: spec[of _ 0])
  have "kepler_loop e M tol n (newton_step e M E) = (newton_step e M ^^ n) (newton_step e M E)"
  proof (rule Suc.IH, intro allI impI)
    fix j assume "j < n"
    then have "Suc j < Suc n" by simp
    with Suc.prems show "\<not> \<bar>(newton_step e M ^^ Suc j) (newton_step e M E)
                      - (newton_step e M ^^ j) (newton_step e M E)\<bar> < tol"
      by (metis funpow_simps_right(2) o_apply)
  qed
  with first show ?case
    by (simp only: kepler_loop_Suc if_False funpow_simps_right(2) o_apply)
qed

lemma derivative_positive:
  fixes e :: real
  assumes "0 \<le> e" "e < 1"
  shows "0 < 1 - e * cos E"
proof -
  have "e * cos E \<le> e * 1"
    using assms(1) by (intro mult_left_mono) simp_all
  with assms(2) show ?thesis by simp
qed

lemma solve_first_convergence:
  assumes "k < nat cap"
    and "\<forall>j<k. \<not> \<bar>kepler_iterate s M (Suc j) - kepler_iterate s M j\<bar> < tol"
    and "\<bar>kepler_iterate s M (Suc k) - kepler_iterate s M k\<bar> < tol"
  shows "solve_kepler_equation s M tol cap = kepler_iterate s M (Suc k)"
  using assms unfolding solve_kepler_equation_def kepler_iterate_def Let_def
  by (rule kepler_loop_converges_at)

lemma solve_exhausted:
  assumes "\<forall>j<nat cap. \<not> \<bar>kepler_iterate s M (Suc j) - kepler_iterate s M j\<bar> < tol"
  shows "solve_kepler_equation s M tol cap = kepler_iterate s M (nat cap)"
  using assms unfolding solve_kepler_equation_def kepler_iterate_def Let_def
  by (rule kepler_loop_exhausted)

lemma solve_is_iterate:
  "\<exists>k\<le>nat cap. solve_kepler_equation s M tol cap = kepler_iterate s M k"
proof (cases "\<exists>j<nat cap. \<bar>kepler_iterate s M (Suc j) - kepler_iterate s M j\<bar> < tol")
  case True
  define P where "P j \<longleftrightarrow> j < nat cap \<and> \<bar>kepler_iterate s M (Suc j) - kepler_iterate s M j\<bar> < tol" for j
  from True have ex: "\<exists>j. P j" by (auto simp: P_def)
  define k where "k = (LEAST j. P j)"
  have Pk: "P k" unfolding k_def using ex by (auto intro: LeastI)
  have least: "\<forall>j<k. \<not> \<bar>kepler_iterate s M (Suc j) - kepler_iterate s M j\<bar> < tol"
  proof (intro allI impI notI)
    fix j assume "j < k" "\<bar>kepler_iterate s M (Suc j) - kepler_iterate s M j\<bar> < tol"
    with Pk have "P j" by (simp add: P_def)
    then have "k \<le> j" unfolding k_def by (rule Least_le)
    with \<open>j < k\<close> show False by simp
  qed
  have "solve_kepler_equation s M tol cap = kepler_iterate s M (Suc k)"
    using Pk least by (intro solve_first_convergence) (simp_all add: P_def)
  moreover have "Suc k \<le> nat cap" using Pk by (simp add: P_def)
  ultimately show ?thesis by blast
next
  case False
  then have "solve_kepler_equation s M tol cap = kepler_iterate s M (nat cap)"
    by (intro solve_exhausted) blast
  then show ?thesis by blast
qed

lemma py_mod_unit:
  assumes "0 \<le> x" "x < 2 * pi"
  shows "py_mod x (2 * pi) = x"
proof -
  have "\<lfloor>x / (2 * pi)\<rfloor> = 0"
    using assms by (intro floor_unique) (simp_all add: field_simps)
  then show ?thesis by (simp add: py_mod_def)
qed

lemma py_mod_minus_one: "py_mod (- 1) (2 * pi) = 2 * pi - 1"
proof -
  have "1 < 2 * pi" using pi_ge_two by linarith
  then have "\<lfloor>(- 1) / (2 * pi)\<rfloor> = - 1"
    by (intro floor_unique) (simp_all add: field_simps)
  then show ?thesis by (simp add: py_mod_def)
qed

lemma py_mod_two_pi: "py_mod (2 * pi) (2 * pi) = 0"
  by (simp add: py_mod_def)

lemma py_mod_range:
  assumes "0 < y"
  shows "0 \<le> py_mod x y" and "py_mod x y < y"
proof -
  define q :: real where "q = of_int \<lfloor>x / y\<rfloor>"
  have "q \<le> x / y" "x / y < q + 1" unfolding q_def by linarith+
  then have 1: "q * y \<le> x" and 2: "x < (q + 1) * y"
    using assms by (simp_all add: le_divide_eq divide_less_eq)
  have 3: "(q + 1) * y = y * q + y" "q * y = y * q" by (simp_all add: algebra_simps)
  have "py_mod x y = x - y * q" by (simp add: py_mod_def q_def)
  then show "0 \<le> py_mod x y" and "py_mod x y < y"
    using 1 2 3 by linarith+
qed

lemma kepler_iterate_Suc:
  "kepler_iterate s M (Suc k) =
     newton_step (eccentricity s) (py_mod M (2 * pi)) (kepler_iterate s M k)"
  by (simp add: kepler_iterate_def)

lemma kepler_iterate_circular_one: "kepler_iterate circular_sat 1 k = 1"
proof -
  have "(1::real) < 2 * pi" using pi_ge_two by linarith
  then have m: "py_mod 1 (2 * pi) = 1" by (intro py_mod_unit) simp_all
  have "newton_step 0 1 1 = 1" by (simp add: newton_step_def)
  then have "(newton_step 0 1 ^^ k) 1 = 1" by (induction k) simp_all
  then show ?thesis by (simp add: kepler_iterate_def circular_sat_def m)
qed

lemma kepler_loop_circular:
  assumes "0 < tol"
  shows "kepler_loop 0 M tol (Suc (Suc n)) E = M"
  using assms by (simp add: Let_def)

lemma solve_circular:
  "solve_kepler_equation circular_sat M default_tolerance default_max_iterations
     = py_mod M (2 * pi)"
proof -
  have "nat default_max_iterations = Suc (Suc 98)"
    by (simp add: default_max_iterations_def)
  moreover have "0 < default_tolerance" by (simp add: default_tolerance_def)
  ultimately show ?thesis
    unfolding solve_kepler_equation_def Let_def
    by (simp only: kepler_loop_circular circular_sat_def satellite.simps)
qed

text \<open>
  C4. \<^verbatim>\<open>solve_kepler_equation\<close> raises nothing.  For an eccentricity in \<open>[0, 1)\<close>
  the divisor \<^verbatim>\<open>f_prime\<close> is never zero, and for every mean anomaly, tolerance and
  iteration cap the value returned is one of the iterates up to the cap: the first
  iterate that is closer than the tolerance to its predecessor, returned in the iteration
  that computes it, and the last iterate computed when no iteration within the cap
  passes that test.
\<close>

theorem solve_kepler_equation_always_returns:
  assumes "0 \<le> eccentricity s" and "eccentricity s < 1"
  shows "(\<forall>E. 1 - eccentricity s * cos E \<noteq> 0)
       \<and> (\<exists>k\<le>nat cap. solve_kepler_equation s M tol cap = kepler_iterate s M k)
       \<and> (k < nat cap
            \<and> (\<forall>j<k. \<not> \<bar>kepler_iterate s M (Suc j) - kepler_iterate s M j\<bar> < tol)
            \<and> \<bar>kepler_iterate s M (Suc k) - kepler_iterate s M k\<bar> < tol
          \<longrightarrow> solve_kepler_equation s M tol cap = kepler_iterate s M (Suc k))
       \<and> ((\<forall>j<nat cap. \<not> \<bar>kepler_iterate s M (Suc j) - kepler_iterate s M j\<bar> < tol)
          \<longrightarrow> solve_kepler_equation s M tol cap = kepler_iterate s M (nat cap))"
proof (intro conjI impI allI)
  fix E
  show "1 - eccentricity s * cos E \<noteq> 0"
    using derivative_positive[OF assms, of E] by simp
next
  show "\<exists>k\<le>nat cap. solve_kepler_equation s M tol cap = kepler_iterate s M k"
    by (rule solve_is_iterate)
next
  assume "k < nat cap
            \<and> (\<forall>j<k. \<not> \<bar>kepler_iterate s M (Suc j) - kepler_iterate s M j\<bar> < tol)
            \<and> \<bar>kepler_iterate s M (Suc k) - kepler_iterate s M k\<bar> < tol"
  then show "solve_kepler_equation s M tol cap = kepler_iterate s M (Suc k)"
    by (intro solve_first_convergence) simp_all
next
  assume "\<forall>j<nat cap. \<not> \<bar>kepler_iterate s M (Suc j) - kepler_iterate s M j\<bar> < tol"
  then show "solve_kepler_equation s M tol cap = kepler_iterate s M (nat cap)"
    by (rule solve_exhausted)
qed

text \<open>
  Eccentricity 0 and mean anomaly 1: with the default tolerance the first iteration
  passes the test; with tolerance 0 and cap 3 no iteration does, and the third iterate
  is returned.
\<close>

theorem solve_kepler_equation_always_returns_witness:
  "0 \<le> eccentricity circular_sat \<and> eccentricity circular_sat < 1
   \<and> (0::nat) < nat 100
   \<and> \<bar>kepler_iterate circular_sat 1 (Suc 0) - kepler_iterate circular_sat 1 0\<bar> < default_tolerance
   \<and> solve_kepler_equation circular_sat 1 default_tolerance 100 = kepler_iterate circular_sat 1 (Suc 0)
   \<and> \<not> \<bar>kepler_iterate circular_sat 1 (Suc 0) - kepler_iterate circular_sat 1 0\<bar> < 0
   \<and> \<not> \<bar>kepler_iterate circular_sat 1 (Suc 1) - kepler_iterate circular_sat 1 1\<bar> < 0
   \<and> \<not> \<bar>kepler_iterate circular_sat 1 (Suc 2) - kepler_iterate circular_sat 1 2\<bar> < 0
   \<and> solve_kepler_equation circular_sat 1 0 3 = kepler_iterate circular_sat 1 (nat 3)"
proof -
  have h1: "0 \<le> eccentricity circular_sat" and h2: "eccentricity circular_sat < 1"
    by (simp_all add: circular_sat_def)
  have c: "\<bar>kepler_iterate circular_sat 1 (Suc 0) - kepler_iterate circular_sat 1 0\<bar>
             < default_tolerance"
    by (simp only: kepler_iterate_circular_one) (simp add: default_tolerance_def)
  have n: "\<forall>j<nat 3. \<not> \<bar>kepler_iterate circular_sat 1 (Suc j) - kepler_iterate circular_sat 1 j\<bar> < 0"
    by simp
  show ?thesis
    using h1 h2 c n
      solve_kepler_equation_always_returns[OF h1 h2, of 100 1 default_tolerance 0]
      solve_kepler_equation_always_returns[OF h1 h2, of 3 1 0 0]
    by simp
qed

section \<open>The residual once the convergence test passes\<close>

lemma sin_lipschitz: "\<bar>sin x - sin y\<bar> \<le> \<bar>x - y\<bar>" for x y :: real
proof -
  have "\<bar>sin x - sin y\<bar> = 2 * \<bar>sin ((x - y) / 2)\<bar> * \<bar>cos ((x + y) / 2)\<bar>"
    by (simp add: sin_diff_sin abs_mult)
  also have "\<dots> \<le> 2 * \<bar>sin ((x - y) / 2)\<bar> * 1"
    by (intro mult_left_mono) simp_all
  also have "\<dots> \<le> 2 * \<bar>(x - y) / 2\<bar>"
    using abs_sin_x_le_abs_x[of "(x - y) / 2"] by simp
  finally show ?thesis by simp
qed

lemma newton_step_residual:
  fixes e M E :: real
  assumes e: "0 \<le> e" "e < 1"
  defines "E' \<equiv> newton_step e M E"
  shows "\<bar>E' - e * sin E' - M\<bar> \<le> 2 * (1 + e) * \<bar>E' - E\<bar>"
proof -
  have pos: "0 < 1 - e * cos E" using derivative_positive[OF e] .
  have le: "1 - e * cos E \<le> 1 + e"
  proof -
    have "e * (- cos E) \<le> e * 1" using e(1) by (intro mult_left_mono) simp_all
    then show ?thesis by simp
  qed
  have "E - E' = (E - e * sin E - M) / (1 - e * cos E)"
    by (simp add: E'_def newton_step_def)
  then have f: "E - e * sin E - M = (E - E') * (1 - e * cos E)"
    using pos by (simp add: field_simps)
  have "E' - e * sin E' - M = (E - e * sin E - M) + (E' - E) - e * (sin E' - sin E)"
    by (simp add: algebra_simps)
  then have "\<bar>E' - e * sin E' - M\<bar>
       \<le> \<bar>E - e * sin E - M\<bar> + \<bar>E' - E\<bar> + \<bar>e * (sin E' - sin E)\<bar>"
    by linarith
  moreover have "\<bar>E - e * sin E - M\<bar> \<le> \<bar>E' - E\<bar> * (1 + e)"
  proof -
    have "\<bar>E - e * sin E - M\<bar> = \<bar>E' - E\<bar> * (1 - e * cos E)"
      using pos by (simp add: f abs_mult abs_minus_commute)
    also have "\<dots> \<le> \<bar>E' - E\<bar> * (1 + e)"
      using le by (intro mult_left_mono) simp_all
    finally show ?thesis .
  qed
  moreover have "\<bar>e * (sin E' - sin E)\<bar> \<le> e * \<bar>E' - E\<bar>"
    using e(1) sin_lipschitz[of E' E] by (simp add: abs_mult mult_left_mono)
  ultimately show ?thesis by (simp add: algebra_simps)
qed

lemma first_index:
  fixes P :: "nat \<Rightarrow> bool"
  assumes "\<exists>j<n. P j"
  shows "\<exists>k<n. P k \<and> (\<forall>j<k. \<not> P j)"
proof -
  define k where "k = (LEAST j. P j)"
  from assms obtain j where j: "j < n" "P j" by blast
  have "P k" unfolding k_def using j(2) by (rule LeastI)
  moreover have "k \<le> j" unfolding k_def using j(2) by (rule Least_le)
  then have "k < n" using j(1) by simp
  moreover have "\<forall>i<k. \<not> P i" unfolding k_def using not_less_Least by blast
  ultimately show ?thesis by blast
qed

text \<open>
  When an iteration passes the convergence test, the value returned is within
  \<open>10\<^sup>-\<^sup>1\<^sup>0\<close> of its predecessor, and the residual of a Newton step is bounded by
  the length of the step: for an eccentricity up to 0.9 the residual of the value
  returned, against the reduced mean anomaly, is below \<open>10\<^sup>-\<^sup>8\<close>.
\<close>

lemma residual_when_test_passes:
  assumes "0 \<le> eccentricity s" and "eccentricity s \<le> 9 / 10"
    and "\<exists>k<100. \<bar>kepler_iterate s M (Suc k) - kepler_iterate s M k\<bar> < default_tolerance"
  shows "\<bar>solve_kepler_equation s M default_tolerance default_max_iterations
           - eccentricity s * sin (solve_kepler_equation s M default_tolerance default_max_iterations)
           - py_mod M (2 * pi)\<bar> < 1 / 10 ^ 8"
proof -
  let ?e = "eccentricity s" and ?Mn = "py_mod M (2 * pi)"
  from first_index[OF assms(3)] obtain k where k: "k < 100"
    "\<bar>kepler_iterate s M (Suc k) - kepler_iterate s M k\<bar> < default_tolerance"
    "\<forall>j<k. \<not> \<bar>kepler_iterate s M (Suc j) - kepler_iterate s M j\<bar> < default_tolerance"
    by blast
  have sol: "solve_kepler_equation s M default_tolerance default_max_iterations
              = kepler_iterate s M (Suc k)"
    using k by (intro solve_first_convergence) (simp_all add: default_max_iterations_def)
  have e1: "?e < 1" using assms(2) by simp
  have "\<bar>kepler_iterate s M (Suc k) - ?e * sin (kepler_iterate s M (Suc k)) - ?Mn\<bar>
          \<le> 2 * (1 + ?e) * \<bar>kepler_iterate s M (Suc k) - kepler_iterate s M k\<bar>"
    unfolding kepler_iterate_Suc using newton_step_residual[OF assms(1) e1] .
  also have "\<dots> \<le> (38 / 10) * \<bar>kepler_iterate s M (Suc k) - kepler_iterate s M k\<bar>"
    using assms(2) by (intro mult_right_mono) simp_all
  also have "\<dots> < (38 / 10) * default_tolerance"
    using k(2) by simp
  also have "\<dots> < 1 / 10 ^ 8" by (simp add: default_tolerance_def)
  finally show ?thesis unfolding sol .
qed

section \<open>Convergence of the iteration\<close>

text \<open>
  That an iteration does pass the test.  Write \<open>m\<close> for the reduced mean anomaly and
  \<open>f E = E - e sin E - m\<close>.  For \<open>m\<close> in \<open>[0, \<pi>]\<close> the function \<open>f\<close> is
  convex on \<open>[0, \<pi>]\<close>; from a start in that interval with \<open>f \<ge> 0\<close> the Newton
  iterates decrease, stay in the interval and keep \<open>f \<ge> 0\<close>.  The steps are not
  negative and their sum is at most \<open>\<pi>\<close>, so one of the first 64 is at most 1/16; a
  step \<open>h\<close> is followed by a step of at most \<open>9 h\<^sup>2\<close>, so six steps later the
  step is below \<open>10\<^sup>-\<^sup>1\<^sup>0\<close>.  The case of \<open>m\<close> in \<open>[\<pi>, 2\<pi>]\<close> is the mirror image
  under \<open>E \<mapsto> 2\<pi> - E\<close>.
\<close>

lemma pi_ge_three: "3 \<le> pi"
  using sin_x_le_x[of "pi / 6"] by (simp add: sin_30)

lemma cos_lipschitz: "\<bar>cos x - cos y\<bar> \<le> \<bar>x - y\<bar>" for x y :: real
proof -
  have "\<bar>cos x - cos y\<bar> = 2 * \<bar>sin ((x + y) / 2)\<bar> * \<bar>sin ((y - x) / 2)\<bar>"
    by (simp add: cos_diff_cos abs_mult)
  also have "\<dots> \<le> 2 * 1 * \<bar>sin ((y - x) / 2)\<bar>"
    by (intro mult_right_mono mult_left_mono) simp_all
  also have "\<dots> \<le> 2 * \<bar>(y - x) / 2\<bar>"
    using abs_sin_x_le_abs_x[of "(y - x) / 2"] by simp
  finally show ?thesis by (simp add: abs_minus_commute)
qed

lemma sin_secant:
  fixes a b :: real
  assumes "0 \<le> a" "a \<le> b" "b \<le> pi"
  shows "(b - a) * cos b \<le> sin b - sin a"
    and "sin b - sin a \<le> (b - a) * cos a"
    and "sin b - sin a - (b - a) * cos b \<le> (b - a)\<^sup>2"
proof -
  have "(b - a) * cos b \<le> sin b - sin a \<and> sin b - sin a \<le> (b - a) * cos a
      \<and> sin b - sin a - (b - a) * cos b \<le> (b - a)\<^sup>2"
  proof (cases "a = b")
    case True
    then show ?thesis by simp
  next
    case False
    with assms(2) have lt: "a < b" by simp
    from MVT2[OF lt, of sin cos] obtain z where
      z: "a < z" "z < b" "sin b - sin a = (b - a) * cos z"
      by auto
    have c1: "cos b \<le> cos z"
      using z assms by (intro cos_monotone_0_pi_le) simp_all
    have c2: "cos z \<le> cos a"
      using z assms by (intro cos_monotone_0_pi_le) simp_all
    have "cos z - cos b \<le> \<bar>z - b\<bar>"
      using cos_lipschitz[of z b] by linarith
    also have "\<dots> \<le> b - a" using z by simp
    finally have c3: "cos z - cos b \<le> b - a" .
    have pos: "0 \<le> b - a" using lt by simp
    have 1: "(b - a) * cos b \<le> (b - a) * cos z"
      using c1 pos by (rule mult_left_mono)
    have 2: "(b - a) * cos z \<le> (b - a) * cos a"
      using c2 pos by (rule mult_left_mono)
    have "(b - a) * (cos z - cos b) \<le> (b - a) * (b - a)"
      using c3 pos by (rule mult_left_mono)
    then have 3: "(b - a) * cos z - (b - a) * cos b \<le> (b - a)\<^sup>2"
      by (simp add: right_diff_distrib power2_eq_square)
    show ?thesis unfolding z(3) using 1 2 3 by simp
  qed
  then show "(b - a) * cos b \<le> sin b - sin a"
    and "sin b - sin a \<le> (b - a) * cos a"
    and "sin b - sin a - (b - a) * cos b \<le> (b - a)\<^sup>2"
    by simp_all
qed

lemma newton_step_eq:
  "newton_step e m E = E - kepler_f e m E / (1 - e * cos E)"
  by (simp add: newton_step_def kepler_f_def)

lemma lower_step:
  fixes e m E :: real
  assumes e: "0 \<le> e" "e \<le> 9 / 10" and m: "0 \<le> m"
    and E: "0 \<le> E" "E \<le> pi" and f: "0 \<le> kepler_f e m E"
  defines "E' \<equiv> newton_step e m E"
  shows "0 \<le> E'" and "E' \<le> E" and "0 \<le> kepler_f e m E'"
    and "kepler_f e m E' \<le> e * (E - E')\<^sup>2"
proof -
  define d where "d = 1 - e * cos E"
  define h where "h = kepler_f e m E / d"
  have e1: "e < 1" using e(2) by simp
  have d: "0 < d" unfolding d_def using derivative_positive[OF e(1) e1] .
  have h0: "0 \<le> h" unfolding h_def using f d by simp
  have E': "E' = E - h" by (simp add: E'_def newton_step_eq h_def d_def)
  have fh: "kepler_f e m E = h * d" unfolding h_def using d by simp
  show le: "E' \<le> E" using E' h0 by simp
  have "(E - 0) * cos E \<le> sin E - sin 0"
    using E by (intro sin_secant(1)) simp_all
  then have "e * (E * cos E) \<le> e * sin E"
    using e(1) by (intro mult_left_mono) simp_all
  then have "kepler_f e m E \<le> E * d"
    using m by (simp add: kepler_f_def d_def algebra_simps)
  then have "h * d \<le> E * d" using fh by simp
  then have hE: "h \<le> E" using d by simp
  then show ge: "0 \<le> E'" using E' by simp
  have sec: "(E - E') * cos E \<le> sin E - sin E'"
    "sin E - sin E' - (E - E') * cos E \<le> (E - E')\<^sup>2"
    using ge le E(2) by (intro sin_secant(1) sin_secant(3); simp)+
  have "kepler_f e m E' = kepler_f e m E - h + e * (sin E - sin E')"
    by (simp add: kepler_f_def E' algebra_simps)
  also have "\<dots> = e * (sin E - sin E' - h * cos E)"
    unfolding fh d_def by (simp add: algebra_simps)
  finally have eq: "kepler_f e m E' = e * (sin E - sin E' - (E - E') * cos E)"
    using E' by simp
  show "0 \<le> kepler_f e m E'"
    unfolding eq using sec(1) e(1) by simp
  show "kepler_f e m E' \<le> e * (E - E')\<^sup>2"
    unfolding eq using sec(2) e(1) by (intro mult_left_mono) simp_all
qed

lemma lower_step_quadratic:
  fixes e m E :: real
  assumes e: "0 \<le> e" "e \<le> 9 / 10" and m: "0 \<le> m"
    and E: "0 \<le> E" "E \<le> pi" and f: "0 \<le> kepler_f e m E"
  defines "E' \<equiv> newton_step e m E"
  shows "E' - newton_step e m E' \<le> 9 * (E - E')\<^sup>2"
proof -
  note st = lower_step[OF e m E f, folded E'_def]
  have e1: "e < 1" using e(2) by simp
  have "e * cos E' \<le> e * 1" using e(1) by (intro mult_left_mono) simp_all
  then have d: "1 / 10 \<le> 1 - e * cos E'" using e(2) by simp
  then have dpos: "0 < 1 - e * cos E'" by simp
  have "kepler_f e m E' \<le> (9 / 10) * (E - E')\<^sup>2"
    using st(4) e(2) mult_right_mono[of e "9 / 10" "(E - E')\<^sup>2"] by simp
  also have "\<dots> = 9 * (E - E')\<^sup>2 * (1 / 10)" by simp
  also have "\<dots> \<le> 9 * (E - E')\<^sup>2 * (1 - e * cos E')"
    using d by (intro mult_left_mono) simp_all
  finally have "kepler_f e m E' / (1 - e * cos E') \<le> 9 * (E - E')\<^sup>2"
    using dpos by (simp add: field_simps)
  then show ?thesis by (simp add: newton_step_eq)
qed

lemma lower_invariant:
  fixes e m E :: real
  assumes e: "0 \<le> e" "e \<le> 9 / 10" and m: "0 \<le> m"
    and E: "0 \<le> E" "E \<le> pi" and f: "0 \<le> kepler_f e m E"
  shows "0 \<le> (newton_step e m ^^ j) E \<and> (newton_step e m ^^ j) E \<le> pi
       \<and> 0 \<le> kepler_f e m ((newton_step e m ^^ j) E)"
proof (induction j)
  case 0
  show ?case using E f by simp
next
  case (Suc j)
  let ?x = "(newton_step e m ^^ j) E"
  from Suc have x: "0 \<le> ?x" "?x \<le> pi" "0 \<le> kepler_f e m ?x" by simp_all
  note st = lower_step[OF e m x]
  show ?case using st(1,2,3) x(2) by simp
qed

lemma lower_steps:
  fixes e m E :: real
  assumes e: "0 \<le> e" "e \<le> 9 / 10" and m: "0 \<le> m"
    and E: "0 \<le> E" "E \<le> pi" and f: "0 \<le> kepler_f e m E"
  defines "x \<equiv> \<lambda>j. (newton_step e m ^^ j) E"
  shows "0 \<le> x j - x (Suc j)"
    and "x (Suc j) - x (Suc (Suc j)) \<le> 9 * (x j - x (Suc j))\<^sup>2"
proof -
  from lower_invariant[OF e m E f, of j]
  have xj: "0 \<le> x j" "x j \<le> pi" "0 \<le> kepler_f e m (x j)" by (simp_all add: x_def)
  have S: "x (Suc j) = newton_step e m (x j)" "x (Suc (Suc j)) = newton_step e m (newton_step e m (x j))"
    by (simp_all add: x_def)
  show "0 \<le> x j - x (Suc j)"
    unfolding S using lower_step(2)[OF e m xj] by simp
  show "x (Suc j) - x (Suc (Suc j)) \<le> 9 * (x j - x (Suc j))\<^sup>2"
    unfolding S using lower_step_quadratic[OF e m xj] .
qed

lemma small_step_exists:
  fixes x :: "nat \<Rightarrow> real"
  assumes nonneg: "\<And>j. 0 \<le> x j" and start: "x 0 \<le> pi"
  shows "\<exists>i<64. x i - x (Suc i) \<le> 1 / 16"
proof (rule ccontr)
  assume "\<not> (\<exists>i<64. x i - x (Suc i) \<le> 1 / 16)"
  then have big: "\<And>i. i < 64 \<Longrightarrow> 1 / 16 < x i - x (Suc i)" by (simp add: not_le)
  have "j \<le> 64 \<Longrightarrow> x j \<le> x 0 - real j / 16" for j
  proof (induction j)
    case 0
    show ?case by simp
  next
    case (Suc j)
    then have "x j \<le> x 0 - real j / 16" by simp
    moreover have "1 / 16 < x j - x (Suc j)" using big[of j] Suc.prems by simp
    ultimately show ?case by (simp add: field_simps)
  qed
  from this[of 64] have "x 64 \<le> x 0 - 4" by simp
  also have "\<dots> \<le> pi - 4" using start by simp
  also have "\<dots> < 0" using pi_less_4 by simp
  finally show False using nonneg[of 64] by simp
qed

lemma quadratic_chain:
  fixes h :: "nat \<Rightarrow> real"
  assumes nonneg: "\<And>j. 0 \<le> h j" and quad: "\<And>j. h (Suc j) \<le> 9 * (h j)\<^sup>2"
    and small: "h i \<le> 1 / 16"
  shows "9 * h (i + r) \<le> (9 / 16) ^ (2 ^ r)"
proof (induction r)
  case 0
  show ?case using small by simp
next
  case (Suc r)
  have "9 * h (i + Suc r) \<le> 9 * (9 * (h (i + r))\<^sup>2)"
    using quad[of "i + r"] by simp
  also have "\<dots> = (9 * h (i + r))\<^sup>2" by (simp add: power2_eq_square)
  also have "\<dots> \<le> ((9 / 16) ^ (2 ^ r))\<^sup>2"
    using Suc nonneg[of "i + r"] by (intro power_mono) simp_all
  also have "\<dots> = (9 / 16) ^ (2 ^ Suc r)"
    by (simp add: power_mult[symmetric] mult.commute)
  finally show ?case .
qed

lemma lower_converges:
  fixes e m E :: real
  assumes e: "0 \<le> e" "e \<le> 9 / 10" and m: "0 \<le> m"
    and E: "0 \<le> E" "E \<le> pi" and f: "0 \<le> kepler_f e m E"
  shows "\<exists>k<70. \<bar>(newton_step e m ^^ Suc k) E - (newton_step e m ^^ k) E\<bar> < 1 / 10 ^ 10"
proof -
  define x where "x = (\<lambda>j. (newton_step e m ^^ j) E)"
  define h where "h = (\<lambda>j. x j - x (Suc j))"
  have x0: "\<And>j. 0 \<le> x j" unfolding x_def using lower_invariant[OF e m E f] by simp
  have xs: "x 0 \<le> pi" unfolding x_def using E by simp
  have h0: "\<And>j. 0 \<le> h j" unfolding h_def x_def using lower_steps(1)[OF e m E f] .
  have hq: "\<And>j. h (Suc j) \<le> 9 * (h j)\<^sup>2" unfolding h_def x_def using lower_steps(2)[OF e m E f] .
  from small_step_exists[of x, OF x0 xs] obtain i where i: "i < 64" "h i \<le> 1 / 16"
    unfolding h_def by blast
  from quadratic_chain[of h i 6, OF h0 hq i(2)]
  have "9 * h (i + 6) \<le> (9 / 16) ^ 64" by simp
  also have "\<dots> < 9 * (1 / 10 ^ 10 :: real)" by (simp add: power_divide)
  finally have "h (i + 6) < 1 / 10 ^ 10" by simp
  moreover have "\<bar>x (Suc (i + 6)) - x (i + 6)\<bar> = h (i + 6)"
    using h0[of "i + 6"] unfolding h_def by simp
  ultimately have "\<bar>x (Suc (i + 6)) - x (i + 6)\<bar> < 1 / 10 ^ 10" by simp
  moreover have "i + 6 < 70" using i(1) by simp
  ultimately show ?thesis unfolding x_def by blast
qed

lemma newton_step_mirror:
  "newton_step e (2 * pi - m) (2 * pi - E) = 2 * pi - newton_step e m E"
proof -
  define f where "f = E - e * sin E - m"
  define d where "d = 1 - e * cos E"
  have s: "sin (2 * pi - E) = - sin E" and c: "cos (2 * pi - E) = cos E"
    by (simp_all add: sin_diff cos_diff)
  have eq: "2 * pi - E - e * sin (2 * pi - E) - (2 * pi - m) = - f"
    unfolding s f_def by simp
  have "newton_step e (2 * pi - m) (2 * pi - E) = 2 * pi - E - (- f) / d"
    by (simp only: newton_step_def c eq d_def)
  also have "\<dots> = 2 * pi - (E - f / d)"
    by simp
  also have "E - f / d = newton_step e m E"
    by (simp only: newton_step_def f_def d_def)
  finally show ?thesis .
qed

lemma newton_iterate_mirror:
  "(newton_step e (2 * pi - m) ^^ k) (2 * pi - E) = 2 * pi - (newton_step e m ^^ k) E"
  by (induction k) (simp_all add: newton_step_mirror)

lemma upper_converges:
  fixes e m E :: real
  assumes e: "0 \<le> e" "e \<le> 9 / 10" and m: "m \<le> 2 * pi"
    and E: "pi \<le> E" "E \<le> 2 * pi" and f: "kepler_f e m E \<le> 0"
  shows "\<exists>k<70. \<bar>(newton_step e m ^^ Suc k) E - (newton_step e m ^^ k) E\<bar> < 1 / 10 ^ 10"
proof -
  have f': "0 \<le> kepler_f e (2 * pi - m) (2 * pi - E)"
  proof -
    have "kepler_f e (2 * pi - m) (2 * pi - E) = - kepler_f e m E"
      by (simp add: kepler_f_def sin_diff)
    then show ?thesis using f by simp
  qed
  from lower_converges[OF e, of "2 * pi - m" "2 * pi - E"] m E f'
  obtain k where k: "k < 70"
    "\<bar>(newton_step e (2 * pi - m) ^^ Suc k) (2 * pi - E)
       - (newton_step e (2 * pi - m) ^^ k) (2 * pi - E)\<bar> < 1 / 10 ^ 10"
    by auto
  have "\<bar>(newton_step e m ^^ Suc k) E - (newton_step e m ^^ k) E\<bar>
      = \<bar>(newton_step e (2 * pi - m) ^^ Suc k) (2 * pi - E)
       - (newton_step e (2 * pi - m) ^^ k) (2 * pi - E)\<bar>"
    unfolding newton_iterate_mirror by (simp add: abs_minus_commute)
  with k show ?thesis by auto
qed

lemma first_step_bound:
  fixes e M :: real
  assumes e: "0 \<le> e" "e \<le> 8 / 10" and M: "0 \<le> M" "M \<le> pi / 2"
  shows "e * sin M \<le> 3 / 2 * (1 - e * cos M)"
proof -
  define u where "u = sin M + 3 / 2 * cos M"
  have gen: "(a + 3 / 2 * b)\<^sup>2 + (3 / 2 * a - b)\<^sup>2 = (1 + 9 / 4) * (a\<^sup>2 + b\<^sup>2)"
    for a b :: real
    by (simp add: power2_eq_square algebra_simps)
  have id: "u\<^sup>2 + (3 / 2 * sin M - cos M)\<^sup>2 = (1 + 9 / 4) * ((sin M)\<^sup>2 + (cos M)\<^sup>2)"
    unfolding u_def by (rule gen)
  from id have "u\<^sup>2 + (3 / 2 * sin M - cos M)\<^sup>2 = (1 + 9 / 4) * 1"
    by (simp only: sin_cos_squared_add)
  then have "u\<^sup>2 + (3 / 2 * sin M - cos M)\<^sup>2 = 13 / 4" by simp
  moreover have "0 \<le> (3 / 2 * sin M - cos M)\<^sup>2" by simp
  ultimately have u2: "u\<^sup>2 \<le> 13 / 4" by linarith
  have "e * u \<le> 3 / 2"
  proof (cases "0 \<le> u")
    case True
    have "e\<^sup>2 \<le> (8 / 10)\<^sup>2" using e by (intro power_mono) simp_all
    then have "e\<^sup>2 * u\<^sup>2 \<le> (8 / 10)\<^sup>2 * (13 / 4)"
      using u2 by (intro mult_mono) simp_all
    also have "\<dots> \<le> (3 / 2)\<^sup>2" by (simp add: power2_eq_square)
    finally have "(e * u)\<^sup>2 \<le> (3 / 2)\<^sup>2" by (simp add: power_mult_distrib)
    then show ?thesis by (rule power2_le_imp_le) simp
  next
    case False
    then have "e * u \<le> 0" using e(1) by (simp add: mult_nonneg_nonpos)
    then show ?thesis by simp
  qed
  then show ?thesis unfolding u_def by (simp add: algebra_simps)
qed

lemma first_step_lower:
  fixes e M :: real
  assumes e: "0 \<le> e" "e \<le> 8 / 10" and M: "0 \<le> M" "M \<le> pi"
  defines "E1 \<equiv> newton_step e M M"
  shows "M \<le> E1" and "E1 \<le> pi" and "0 \<le> kepler_f e M E1"
proof -
  define d where "d = 1 - e * cos M"
  define k where "k = e * sin M / d"
  have e1: "e < 1" using e(2) by simp
  have d: "0 < d" unfolding d_def using derivative_positive[OF e(1) e1] .
  have sM: "0 \<le> sin M" using M by (rule sin_ge_zero)
  have k0: "0 \<le> k" unfolding k_def using e(1) sM d by simp
  have E1: "E1 = M + k"
    by (simp add: E1_def newton_step_def k_def d_def)
  show ME: "M \<le> E1" using E1 k0 by simp
  have kd: "k * d = e * sin M" unfolding k_def using d by simp
  show Epi: "E1 \<le> pi"
  proof (cases "M \<le> pi / 2")
    case True
    have "e * sin M \<le> 3 / 2 * d"
      unfolding d_def using first_step_bound[OF e M(1) True] .
    then have "k * d \<le> 3 / 2 * d" using kd by simp
    then have "k \<le> 3 / 2" using d by simp
    then show ?thesis using E1 True pi_ge_three by simp
  next
    case False
    then have h: "pi / 2 \<le> M" by simp
    have "cos M \<le> cos (pi / 2)"
      using h M(2) by (intro cos_monotone_0_pi_le) simp_all
    then have cM: "cos M \<le> 0" by simp
    have "e * cos M \<le> 0" using e(1) cM by (simp add: mult_nonneg_nonpos)
    then have d1: "1 \<le> d" unfolding d_def by simp
    have "k * 1 \<le> k * d" using k0 d1 by (intro mult_left_mono) simp_all
    then have "k \<le> e * sin M" using kd by simp
    also have "\<dots> \<le> 1 * sin M" using e(2) sM by (intro mult_right_mono) simp_all
    also have "\<dots> = sin (pi - M)" by simp
    also have "\<dots> \<le> pi - M" using M(2) by (intro sin_x_le_x) simp
    finally show ?thesis using E1 by simp
  qed
  have sec: "sin E1 - sin M \<le> (E1 - M) * cos M"
    using M(1) ME Epi by (rule sin_secant(2))
  have "kepler_f e M E1 = k - e * sin E1"
    by (simp add: kepler_f_def E1)
  also have "k = k * d + e * k * cos M" by (simp add: d_def algebra_simps)
  also have "k * d + e * k * cos M - e * sin E1 = e * ((E1 - M) * cos M - (sin E1 - sin M))"
    unfolding kd using E1 by (simp add: algebra_simps)
  finally have "kepler_f e M E1 = e * ((E1 - M) * cos M - (sin E1 - sin M))" .
  then show "0 \<le> kepler_f e M E1" using sec e(1) by simp
qed

text \<open>
  Below eccentricity 0.8 the initial guess is the mean anomaly itself.  When it lies in
  \<open>[0, \<pi>]\<close> the first iterate is on the side of the root where \<open>f \<ge> 0\<close> and
  still in \<open>[0, \<pi>]\<close>, and the argument above applies from there.
\<close>

lemma guess_lower_converges:
  fixes e M :: real
  assumes e: "0 \<le> e" "e \<le> 8 / 10" and M: "0 \<le> M" "M \<le> pi"
  shows "\<exists>k<71. \<bar>(newton_step e M ^^ Suc k) M - (newton_step e M ^^ k) M\<bar> < 1 / 10 ^ 10"
proof -
  note fs = first_step_lower[OF e M]
  have e9: "e \<le> 9 / 10" using e(2) by simp
  have E1: "0 \<le> newton_step e M M" using fs(1) M(1) by simp
  from lower_converges[OF e(1) e9 M(1) E1 fs(2) fs(3)] obtain j where
    j: "j < 70"
    "\<bar>(newton_step e M ^^ Suc j) (newton_step e M M) - (newton_step e M ^^ j) (newton_step e M M)\<bar>
       < 1 / 10 ^ 10"
    by blast
  have "\<bar>(newton_step e M ^^ Suc (Suc j)) M - (newton_step e M ^^ Suc j) M\<bar> < 1 / 10 ^ 10"
    using j(2) by (simp only: funpow_Suc_right o_apply)
  moreover have "Suc j < 71" using j(1) by simp
  ultimately show ?thesis by blast
qed

lemma guess_upper_converges:
  fixes e M :: real
  assumes e: "0 \<le> e" "e \<le> 8 / 10" and M: "pi \<le> M" "M \<le> 2 * pi"
  shows "\<exists>k<71. \<bar>(newton_step e M ^^ Suc k) M - (newton_step e M ^^ k) M\<bar> < 1 / 10 ^ 10"
proof -
  from guess_lower_converges[OF e, of "2 * pi - M"] M obtain k where k: "k < 71"
    "\<bar>(newton_step e (2 * pi - M) ^^ Suc k) (2 * pi - M)
       - (newton_step e (2 * pi - M) ^^ k) (2 * pi - M)\<bar> < 1 / 10 ^ 10"
    by auto
  have "\<bar>(newton_step e M ^^ Suc k) M - (newton_step e M ^^ k) M\<bar>
      = \<bar>(newton_step e (2 * pi - M) ^^ Suc k) (2 * pi - M)
       - (newton_step e (2 * pi - M) ^^ k) (2 * pi - M)\<bar>"
    unfolding newton_iterate_mirror by (simp add: abs_minus_commute)
  with k show ?thesis by auto
qed

text \<open>
  One of the 100 iterations of \<^verbatim>\<open>solve_kepler_equation\<close> passes the convergence
  test, for an eccentricity in \<open>[0, 0.9]\<close> and a mean anomaly that is in
  \<open>[0, 2\<pi>)\<close> when the eccentricity is below 0.8.
\<close>

lemma solver_convergence_test_passes:
  assumes e: "0 \<le> eccentricity s" "eccentricity s \<le> 9 / 10"
    and dom: "8 / 10 \<le> eccentricity s \<or> (0 \<le> M \<and> M < 2 * pi)"
  shows "\<exists>k<100. \<bar>kepler_iterate s M (Suc k) - kepler_iterate s M k\<bar> < default_tolerance"
proof (cases "eccentricity s < 8 / 10")
  case True
  with dom have M: "0 \<le> M" "M < 2 * pi" by simp_all
  have m: "py_mod M (2 * pi) = M" using M by (rule py_mod_unit)
  have e8: "eccentricity s \<le> 8 / 10" using True by simp
  have "\<exists>k<71. \<bar>(newton_step (eccentricity s) M ^^ Suc k) M
           - (newton_step (eccentricity s) M ^^ k) M\<bar> < 1 / 10 ^ 10"
  proof (cases "M \<le> pi")
    case True
    show ?thesis using guess_lower_converges[OF e(1) e8 M(1) True] .
  next
    case False
    then have "pi \<le> M" "M \<le> 2 * pi" using M(2) by simp_all
    then show ?thesis using guess_upper_converges[OF e(1) e8] by blast
  qed
  then obtain k where "k < 71" "\<bar>(newton_step (eccentricity s) M ^^ Suc k) M
           - (newton_step (eccentricity s) M ^^ k) M\<bar> < 1 / 10 ^ 10" by blast
  then have "k < 100 \<and> \<bar>kepler_iterate s M (Suc k) - kepler_iterate s M k\<bar> < default_tolerance"
    using True by (simp add: kepler_iterate_def m default_tolerance_def)
  then show ?thesis by blast
next
  case False
  let ?m = "py_mod M (2 * pi)"
  have r: "0 \<le> ?m" "?m < 2 * pi" by (rule py_mod_range, simp)+
  have "\<exists>k<70. \<bar>(newton_step (eccentricity s) ?m ^^ Suc k) pi
           - (newton_step (eccentricity s) ?m ^^ k) pi\<bar> < 1 / 10 ^ 10"
  proof (cases "?m \<le> pi")
    case True
    then have "0 \<le> kepler_f (eccentricity s) ?m pi" by (simp add: kepler_f_def)
    then show ?thesis by (intro lower_converges[OF e r(1)]) simp_all
  next
    case False
    then have "kepler_f (eccentricity s) ?m pi \<le> 0" by (simp add: kepler_f_def)
    then show ?thesis using r(2) by (intro upper_converges[OF e]) simp_all
  qed
  then obtain k where "k < 70" "\<bar>(newton_step (eccentricity s) ?m ^^ Suc k) pi
           - (newton_step (eccentricity s) ?m ^^ k) pi\<bar> < 1 / 10 ^ 10" by blast
  then have "k < 100 \<and> \<bar>kepler_iterate s M (Suc k) - kepler_iterate s M k\<bar> < default_tolerance"
    using False by (simp add: kepler_iterate_def default_tolerance_def)
  then show ?thesis by blast
qed

section \<open>The residual of the value returned\<close>

text \<open>
  C1, as stated, measures the residual against the mean anomaly that was passed in.  At
  eccentricity 0 and mean anomaly \<open>-1\<close> the solver reduces the mean anomaly to
  \<open>2\<pi> - 1\<close> and returns \<open>2\<pi> - 1\<close>; the residual against \<open>-1\<close> is
  \<open>2\<pi>\<close>, not below \<open>10\<^sup>-\<^sup>8\<close>.
\<close>

theorem kepler_residual_counterexample:
  "0 \<le> eccentricity circular_sat \<and> eccentricity circular_sat \<le> 9 / 10
   \<and> \<not> \<bar>solve_kepler_equation circular_sat (- 1) default_tolerance default_max_iterations
          - eccentricity circular_sat
              * sin (solve_kepler_equation circular_sat (- 1) default_tolerance default_max_iterations)
          - (- 1)\<bar> < 1 / 10 ^ 8"
proof -
  have e: "eccentricity circular_sat = 0" by (simp add: circular_sat_def)
  have "(1::real) / 10 ^ 8 \<le> 2 * pi" using pi_ge_two by simp
  then show ?thesis
    by (simp add: solve_circular py_mod_minus_one e)
qed

text \<open>
  C1, amended.  For an eccentricity \<open>e\<close> in \<open>[0, 0.9]\<close> and a mean anomaly
  \<open>M\<close> that is any real number when \<open>e \<ge> 0.8\<close> and lies in \<open>[0, 2\<pi>)\<close> when
  \<open>e < 0.8\<close>, the value \<open>E\<close> that \<^verbatim>\<open>solve_kepler_equation\<close> returns with the
  default tolerance \<open>10\<^sup>-\<^sup>1\<^sup>0\<close> and cap 100 satisfies
  \<open>|E - e sin E - (M mod 2\<pi>)| < 10\<^sup>-\<^sup>8\<close>: the residual is taken against the mean
  anomaly reduced into \<open>[0, 2\<pi>)\<close>, which is the equation the code solves, and which
  is \<open>M\<close> itself for \<open>M\<close> in \<open>[0, 2\<pi>)\<close>.
\<close>

theorem kepler_residual_within_tolerance:
  assumes "0 \<le> eccentricity s" and "eccentricity s \<le> 9 / 10"
    and "8 / 10 \<le> eccentricity s \<or> (0 \<le> M \<and> M < 2 * pi)"
  shows "\<bar>solve_kepler_equation s M default_tolerance default_max_iterations
           - eccentricity s * sin (solve_kepler_equation s M default_tolerance default_max_iterations)
           - py_mod M (2 * pi)\<bar> < 1 / 10 ^ 8"
  using residual_when_test_passes[OF assms(1,2) solver_convergence_test_passes[OF assms]] .

text \<open>
  Eccentricity 0.9 and mean anomaly 0: the iteration starts at \<open>\<pi>\<close>, its first
  iterate is \<open>9\<pi>/19\<close>, and the value returned has a residual below \<open>10\<^sup>-\<^sup>8\<close>.
\<close>

theorem kepler_residual_within_tolerance_witness:
  "0 \<le> eccentricity eccentric_sat \<and> eccentricity eccentric_sat \<le> 9 / 10
   \<and> 8 / 10 \<le> eccentricity eccentric_sat
   \<and> kepler_iterate eccentric_sat 0 0 = pi
   \<and> kepler_iterate eccentric_sat 0 (Suc 0) = 9 * pi / 19
   \<and> \<bar>solve_kepler_equation eccentric_sat 0 default_tolerance default_max_iterations
          - eccentricity eccentric_sat
              * sin (solve_kepler_equation eccentric_sat 0 default_tolerance default_max_iterations)
          - py_mod 0 (2 * pi)\<bar> < 1 / 10 ^ 8"
proof -
  have h1: "0 \<le> eccentricity eccentric_sat" and h2: "eccentricity eccentric_sat \<le> 9 / 10"
    and h3: "8 / 10 \<le> eccentricity eccentric_sat"
    by (simp_all add: eccentric_sat_def)
  have h3': "8 / 10 \<le> eccentricity eccentric_sat \<or> ((0::real) \<le> 0 \<and> (0::real) < 2 * pi)"
    using h3 by simp
  have m: "py_mod 0 (2 * pi) = 0" by (simp add: py_mod_def)
  have i0: "kepler_iterate eccentric_sat 0 0 = pi"
    by (simp add: kepler_iterate_def eccentric_sat_def)
  have "newton_step (9 / 10) 0 pi = 9 * pi / 19"
    by (simp add: newton_step_def)
  then have i1: "kepler_iterate eccentric_sat 0 (Suc 0) = 9 * pi / 19"
    by (simp add: kepler_iterate_def eccentric_sat_def m)
  show ?thesis
    using h1 h2 h3 i0 i1 kepler_residual_within_tolerance[OF h1 h2 h3'] by blast
qed

lemma half_cycle:
  "newton_step (1 / 2) 0 (2 * pi) = - (2 * pi)" "newton_step (1 / 2) 0 (- (2 * pi)) = 2 * pi"
  by (simp_all add: newton_step_def)

lemma kepler_loop_two_cycle:
  assumes "tol \<le> 4 * pi"
  shows "kepler_loop (1 / 2) 0 tol (2 * n) (2 * pi) = 2 * pi"
proof (induction n)
  case 0
  then show ?case by simp
next
  case (Suc n)
  have "kepler_loop (1 / 2) 0 tol (Suc (Suc (2 * n))) (2 * pi)
          = kepler_loop (1 / 2) 0 tol (2 * n) (2 * pi)"
    using assms by (simp add: kepler_loop_Suc half_cycle del: kepler_loop.simps(2))
  with Suc show ?case by simp
qed

text \<open>
  Below eccentricity 0.8 the initial guess is the mean anomaly before its reduction
  (the assignment of \<^verbatim>\<open>E\<close> precedes \<^verbatim>\<open>M = M % (2 * np.pi)\<close>), and for a mean
  anomaly outside \<open>[0, 2\<pi>)\<close> the iteration can fail: at eccentricity 1/2 and mean
  anomaly \<open>2\<pi>\<close> the iterates alternate between \<open>2\<pi>\<close> and \<open>-2\<pi>\<close>, the cap is
  reached, and the value returned, \<open>2\<pi>\<close>, has residual \<open>2\<pi>\<close> against the reduced
  mean anomaly 0.
\<close>

lemma kepler_no_convergence_example:
  "solve_kepler_equation half_sat (2 * pi) default_tolerance default_max_iterations = 2 * pi"
  "\<bar>2 * pi - eccentricity half_sat * sin (2 * pi) - py_mod (2 * pi) (2 * pi)\<bar> = 2 * pi"
proof -
  have "default_tolerance \<le> 4 * pi"
    using pi_ge_two by (simp add: default_tolerance_def)
  from kepler_loop_two_cycle[OF this, of 50]
  show "solve_kepler_equation half_sat (2 * pi) default_tolerance default_max_iterations = 2 * pi"
    by (simp add: solve_kepler_equation_def half_sat_def py_mod_two_pi default_max_iterations_def)
  show "\<bar>2 * pi - eccentricity half_sat * sin (2 * pi) - py_mod (2 * pi) (2 * pi)\<bar> = 2 * pi"
    by (simp add: py_mod_two_pi)
qed

section \<open>Circular orbits\<close>

lemma rot2:
  fixes a b c s :: real
  shows "(a * c - b * s)\<^sup>2 + (a * s + b * c)\<^sup>2 = (a\<^sup>2 + b\<^sup>2) * (s\<^sup>2 + c\<^sup>2)"
  by (simp add: power2_eq_square algebra_simps)

lemma rotation_preserves_norm:
  fixes r nu w i W :: real
  defines "xp \<equiv> r * cos nu" and "yp \<equiv> r * sin nu"
  defines "x1 \<equiv> xp * cos w - yp * sin w" and "y1 \<equiv> xp * sin w + yp * cos w"
  defines "y2 \<equiv> y1 * cos i - 0 * sin i" and "z2 \<equiv> y1 * sin i + 0 * cos i"
  shows "(x1 * cos W - y2 * sin W)\<^sup>2 + (x1 * sin W + y2 * cos W)\<^sup>2 + z2\<^sup>2 = r\<^sup>2"
proof -
  have "(x1 * cos W - y2 * sin W)\<^sup>2 + (x1 * sin W + y2 * cos W)\<^sup>2 = x1\<^sup>2 + y2\<^sup>2"
    by (simp add: rot2)
  moreover have "y2\<^sup>2 + z2\<^sup>2 = y1\<^sup>2"
  proof -
    have "y2\<^sup>2 + z2\<^sup>2 = y1\<^sup>2 * (cos i)\<^sup>2 + y1\<^sup>2 * (sin i)\<^sup>2"
      by (simp add: y2_def z2_def power_mult_distrib)
    also have "\<dots> = y1\<^sup>2 * ((cos i)\<^sup>2 + (sin i)\<^sup>2)"
      by (simp only: distrib_left)
    finally show ?thesis by simp
  qed
  moreover have "x1\<^sup>2 + y1\<^sup>2 = xp\<^sup>2 + yp\<^sup>2"
    by (simp add: x1_def y1_def rot2)
  moreover have "xp\<^sup>2 + yp\<^sup>2 = r\<^sup>2"
  proof -
    have "xp\<^sup>2 + yp\<^sup>2 = r\<^sup>2 * (cos nu)\<^sup>2 + r\<^sup>2 * (sin nu)\<^sup>2"
      by (simp add: xp_def yp_def power_mult_distrib)
    also have "\<dots> = r\<^sup>2 * ((cos nu)\<^sup>2 + (sin nu)\<^sup>2)"
      by (simp only: distrib_left)
    finally show ?thesis by simp
  qed
  ultimately show ?thesis by linarith
qed

lemma circular_position_norm:
  assumes t: "0 \<le> t" and a: "0 < semi_major_axis s" and e: "eccentricity s < 1 / 10 ^ 10"
  shows "\<exists>p E. calculate_position s t = Inr p
           \<and> norm3 p = \<bar>semi_major_axis s * (1 - (eccentricity s)\<^sup>2)
                          / (1 + eccentricity s * cos E)\<bar>"
proof -
  define E where "E = solve_kepler_equation s
      (radians (mean_anomaly s) + sqrt (3986004418 / 10000 / semi_major_axis s ^ 3) * t)
      default_tolerance default_max_iterations"
  define r where "r = semi_major_axis s * (1 - (eccentricity s)\<^sup>2) / (1 + eccentricity s * cos E)"
  define w where "w = radians (argument_of_perigee s)"
  define i where "i = radians (inclination s)"
  define W where "W = radians (raan s)"
  define x1 where "x1 = r * cos E * cos w - r * sin E * sin w"
  define y1 where "y1 = r * cos E * sin w + r * sin E * cos w"
  define y2 where "y2 = y1 * cos i - 0 * sin i"
  define z2 where "z2 = y1 * sin i + 0 * cos i"
  define p where "p = (x1 * cos W - y2 * sin W, x1 * sin W + y2 * cos W, z2)"
  have pos: "calculate_position s t = Inr p"
    using t a e
    by (simp add: calculate_position_def Let_def p_def x1_def y1_def y2_def z2_def r_def
        E_def w_def i_def W_def)
  have "(x1 * cos W - y2 * sin W)\<^sup>2 + (x1 * sin W + y2 * cos W)\<^sup>2 + z2\<^sup>2 = r\<^sup>2"
    unfolding x1_def y1_def y2_def z2_def by (rule rotation_preserves_norm)
  then have "norm3 p = \<bar>r\<bar>"
    by (simp add: norm3_def p_def)
  with pos show ?thesis unfolding r_def by blast
qed

lemma near_circular_radius:
  fixes a e c :: real
  assumes a: "0 < a" and e: "0 \<le> e" "e < 1 / 10 ^ 10" and c: "- 1 \<le> c" "c \<le> 1"
  shows "\<bar>\<bar>a * (1 - e\<^sup>2) / (1 + e * c)\<bar> - a\<bar> \<le> a / 10 ^ 10"
proof -
  have e1: "e < 1" using e(2) by simp
  have ec: "- e \<le> e * c" "e * c \<le> e"
    using e(1) c mult_left_mono[of "-1" c e] mult_left_mono[of c 1 e] by simp_all
  have den: "0 < 1 + e * c" using ec(1) e1 by linarith
  have "e * e \<le> e * 1" using e(1) e1 by (intro mult_left_mono) simp_all
  then have num: "0 < 1 - e\<^sup>2"
    using e1 by (simp add: power2_eq_square)
  have fac: "1 - e\<^sup>2 = (1 - e) * (1 + e)" by (simp add: power2_eq_square algebra_simps)
  have up: "(1 - e\<^sup>2) / (1 + e * c) \<le> 1 + e"
  proof -
    have "(1 + e) * (1 - e) \<le> (1 + e) * (1 + e * c)"
      using ec(1) e(1) by (intro mult_left_mono) simp_all
    then have "1 - e\<^sup>2 \<le> (1 + e) * (1 + e * c)"
      unfolding fac by (simp only: mult.commute)
    then show ?thesis using den by (simp add: field_simps)
  qed
  have lo: "1 - e \<le> (1 - e\<^sup>2) / (1 + e * c)"
  proof -
    have "(1 - e) * (1 + e * c) \<le> (1 - e) * (1 + e)"
      using ec(2) e1 by (intro mult_left_mono) simp_all
    then show ?thesis using den unfolding fac by (simp add: field_simps)
  qed
  define q where "q = (1 - e\<^sup>2) / (1 + e * c)"
  have q: "a * (1 - e\<^sup>2) / (1 + e * c) = a * q" by (simp add: q_def)
  have pos: "0 < q" unfolding q_def using num den by simp
  have "0 < a * q" using a pos by simp
  then have "\<bar>a * q\<bar> - a = a * (q - 1)"
    by (simp only: abs_of_pos right_diff_distrib mult_1_right)
  moreover have "\<bar>q - 1\<bar> \<le> e" using up lo unfolding q_def by simp
  ultimately have "\<bar>\<bar>a * q\<bar> - a\<bar> \<le> a * e"
    using a by (simp add: abs_mult)
  also have "a * e \<le> a * (1 / 10 ^ 10)" using a e(2) by (intro mult_left_mono) simp_all
  finally show ?thesis unfolding q by simp
qed

lemma circular_radius_close:
  assumes t: "0 \<le> t" and a: "0 < semi_major_axis s"
    and e: "0 \<le> eccentricity s" "eccentricity s < 1 / 10 ^ 10"
  shows "\<exists>p. calculate_position s t = Inr p
           \<and> \<bar>norm3 p - semi_major_axis s\<bar> \<le> semi_major_axis s / 10 ^ 10"
proof -
  from circular_position_norm[OF t a e(2)] obtain p E where
    p: "calculate_position s t = Inr p"
    and n: "norm3 p = \<bar>semi_major_axis s * (1 - (eccentricity s)\<^sup>2)
                          / (1 + eccentricity s * cos E)\<bar>"
    by blast
  have "\<bar>norm3 p - semi_major_axis s\<bar> \<le> semi_major_axis s / 10 ^ 10"
    unfolding n by (rule near_circular_radius[OF a e]) simp_all
  with p show ?thesis by blast
qed

text \<open>
  C5. For an element set that the constructor accepted, with eccentricity below
  \<open>10\<^sup>-\<^sup>1\<^sup>0\<close>, and two non-negative times: both positions exist, the norm of each
  differs from the semi-major axis \<open>a\<close> by at most \<open>10\<^sup>-\<^sup>1\<^sup>0 a\<close>, and the two norms
  differ by at most \<open>2 \<sqdot> 10\<^sup>-\<^sup>1\<^sup>0 a\<close>.  The tolerance is the relative tolerance
  \<open>10\<^sup>-\<^sup>1\<^sup>0\<close> in exact arithmetic.
\<close>

theorem circular_orbit_constant_radius:
  assumes "Satellite_init nv iv incv ev av mv epv rav apv = Constructs s"
    and "eccentricity s < 1 / 10 ^ 10" and "0 \<le> t1" and "0 \<le> t2"
  shows "\<exists>p1 p2. calculate_position s t1 = Inr p1 \<and> calculate_position s t2 = Inr p2
           \<and> \<bar>norm3 p1 - semi_major_axis s\<bar> \<le> semi_major_axis s / 10 ^ 10
           \<and> \<bar>norm3 p2 - semi_major_axis s\<bar> \<le> semi_major_axis s / 10 ^ 10
           \<and> \<bar>norm3 p1 - norm3 p2\<bar> \<le> 2 * semi_major_axis s / 10 ^ 10"
proof -
  note inv = init_invariant[OF assms(1)]
  from circular_radius_close[OF assms(3) inv(3) inv(1) assms(2)] obtain p1 where
    p1: "calculate_position s t1 = Inr p1"
        "\<bar>norm3 p1 - semi_major_axis s\<bar> \<le> semi_major_axis s / 10 ^ 10" by blast
  from circular_radius_close[OF assms(4) inv(3) inv(1) assms(2)] obtain p2 where
    p2: "calculate_position s t2 = Inr p2"
        "\<bar>norm3 p2 - semi_major_axis s\<bar> \<le> semi_major_axis s / 10 ^ 10" by blast
  have "\<bar>norm3 p1 - norm3 p2\<bar> \<le> 2 * semi_major_axis s / 10 ^ 10"
    using p1(2) p2(2) by linarith
  with p1 p2 show ?thesis by blast
qed

text \<open>
  A circular orbit of 7000 km at the epoch and 5400 seconds later.
\<close>

theorem circular_orbit_constant_radius_witness:
  "Satellite_init (PyStr ''Circular'') (PyStr ''C-0'') (PyInt 0) (PyInt 0)
     (PyInt 7000) (PyInt 0) (PyDatetime (Datetime 2024 1 1 0 0 0)) (PyFloat (Finite 0))
     (PyFloat (Finite 0))
     = Constructs circular_sat
   \<and> eccentricity circular_sat < 1 / 10 ^ 10 \<and> (0::real) \<le> 0 \<and> (0::real) \<le> 5400
   \<and> (\<exists>p1 p2. calculate_position circular_sat 0 = Inr p1
         \<and> calculate_position circular_sat 5400 = Inr p2
         \<and> \<bar>norm3 p1 - 7000\<bar> \<le> 7000 / 10 ^ 10
         \<and> \<bar>norm3 p2 - 7000\<bar> \<le> 7000 / 10 ^ 10
         \<and> \<bar>norm3 p1 - norm3 p2\<bar> \<le> 2 * 7000 / 10 ^ 10)"
proof -
  have h2: "eccentricity circular_sat < 1 / 10 ^ 10" by (simp add: circular_sat_def)
  have h3: "(0::real) \<le> 0" and h4: "(0::real) \<le> 5400" by simp_all
  have a: "semi_major_axis circular_sat = 7000" by (simp add: circular_sat_def)
  show ?thesis
    using circular_sat_constructed h2 h3 h4
      circular_orbit_constant_radius[OF circular_sat_constructed h2 h3 h4]
    unfolding a by blast
qed

section \<open>Time sampling\<close>













section \<open>Periodicity\<close>

lemma py_mod_add_period: "py_mod (M + 2 * pi) (2 * pi) = py_mod M (2 * pi)"
proof -
  have "(M + 2 * pi) / (2 * pi) = M / (2 * pi) + 1"
    by (simp add: field_simps)
  then have "\<lfloor>(M + 2 * pi) / (2 * pi)\<rfloor> = \<lfloor>M / (2 * pi)\<rfloor> + 1"
    by simp
  then show ?thesis by (simp add: py_mod_def algebra_simps)
qed

lemma mean_motion_times_period:
  fixes a :: real
  assumes "0 < a"
  shows "sqrt (3986004418 / 10000 / a ^ 3) * (2 * pi * sqrt (a ^ 3 / (3986004418 / 10000))) = 2 * pi"
proof -
  have "sqrt (3986004418 / 10000 / a ^ 3) * sqrt (a ^ 3 / (3986004418 / 10000))
      = sqrt ((3986004418 / 10000 / a ^ 3) * (a ^ 3 / (3986004418 / 10000)))"
    by (simp only: real_sqrt_mult)
  also have "(3986004418 / 10000 / a ^ 3) * (a ^ 3 / (3986004418 / 10000)) = 1"
    using assms by simp
  finally have "sqrt (3986004418 / 10000 / a ^ 3) * sqrt (a ^ 3 / (3986004418 / 10000)) = 1"
    by simp
  moreover have "sqrt (3986004418 / 10000 / a ^ 3) * (2 * pi * sqrt (a ^ 3 / (3986004418 / 10000)))
      = 2 * pi * (sqrt (3986004418 / 10000 / a ^ 3) * sqrt (a ^ 3 / (3986004418 / 10000)))"
    by (simp only: mult_ac)
  ultimately show ?thesis by (simp only: mult_1_right)
qed

lemma solve_periodic_high_eccentricity:
  assumes "8 / 10 \<le> eccentricity s"
  shows "solve_kepler_equation s (M + 2 * pi) tol cap = solve_kepler_equation s M tol cap"
proof -
  have "\<not> eccentricity s < 8 / 10" using assms by simp
  then show ?thesis
    by (simp add: solve_kepler_equation_def py_mod_add_period Let_def)
qed

text \<open>
  One orbital period adds exactly \<open>2\<pi>\<close> to the mean anomaly, which leaves the
  reduced mean anomaly unchanged.  For an eccentricity of at least 0.8 the initial guess
  is \<open>\<pi>\<close> whatever the mean anomaly is, so the solver runs on the same data and the
  positions at \<open>t\<close> and one period later are equal.  Below 0.8 the initial guess is
  the mean anomaly before its reduction, the two runs start \<open>2\<pi>\<close> apart, and nothing
  is established here about their results.
\<close>

lemma position_periodic_high_eccentricity:
  assumes "0 < semi_major_axis s" and "8 / 10 \<le> eccentricity s" and "0 \<le> t"
    and "calculate_orbital_period (PySatellite s) = Inr T"
  shows "calculate_position s (t + T) = calculate_position s t"
proof -
  let ?n = "sqrt (3986004418 / 10000 / semi_major_axis s ^ 3)"
  have T: "T = 2 * pi * sqrt (semi_major_axis s ^ 3 / (3986004418 / 10000))"
    using assms(4) by (simp add: calculate_orbital_period_def Let_def)
  have T0: "0 \<le> T" unfolding T using assms(1) by simp
  have nT: "?n * T = 2 * pi" unfolding T by (rule mean_motion_times_period[OF assms(1)])
  have M: "radians (mean_anomaly s) + ?n * (t + T) = (radians (mean_anomaly s) + ?n * t) + 2 * pi"
    using nT by (simp add: algebra_simps)
  have tT: "\<not> t + T < 0" using assms(3) T0 by simp
  have t: "\<not> t < 0" using assms(3) by simp
  show ?thesis
    unfolding calculate_position_def Let_def M solve_periodic_high_eccentricity[OF assms(2)]
    by (simp only: tT t if_False)
qed

end
